theory Spec2Isabelle
  imports Complex_Main
begin

section \<open>Numbers\<close>

text \<open>
  A JavaScript \<^verbatim>\<open>number\<close> is an IEEE 754 double: a finite value, one of the two
  infinities, or \<^verbatim>\<open>NaN\<close>. A finite double is modelled by the real number it denotes. The
  two zeros are one value here: the functions modelled below neither divide nor inspect
  the sign of a zero.
\<close>

datatype number = Num real | Infinity | MinusInfinity | NaN

text \<open>
  Rounding to the nearest double, ties to the even significand. \<open>exponent x\<close> is the
  integer \<open>e\<close> with \<open>2^e \<le> |x| < 2^(e+1)\<close>, found from the bit length of the integer part
  (of the reciprocal's integer part below 1). A double has 53 significant bits, so the
  unit in the last place is \<open>2^(e-52)\<close>; below the normal range (\<open>e < -1022\<close>) the unit
  stays \<open>2^(-1074)\<close>. A rounded value of magnitude \<open>2^1024\<close> or more is an infinity.
\<close>

fun bitLength :: "nat \<Rightarrow> nat" where
  "bitLength n = (if n = 0 then 0 else Suc (bitLength (n div 2)))"

declare bitLength.simps [simp del]

definition pow2 :: "int \<Rightarrow> real" where
  "pow2 k = (if k \<ge> 0 then 2 ^ nat k else 1 / 2 ^ nat (- k))"

definition exponent :: "real \<Rightarrow> int" where
  "exponent x =
     (if \<bar>x\<bar> \<ge> 1 then int (bitLength (nat \<lfloor>\<bar>x\<bar>\<rfloor>)) - 1
      else - int (bitLength (nat (\<lceil>1 / \<bar>x\<bar>\<rceil> - 1))))"

definition roundHalfEven :: "real \<Rightarrow> int" where
  "roundHalfEven r =
     (let f = \<lfloor>r\<rfloor>
      in if r - of_int f < 1 / 2 then f
         else if r - of_int f > 1 / 2 then f + 1
         else if even f then f else f + 1)"

definition roundDouble :: "real \<Rightarrow> real" where
  "roundDouble x =
     (if x = 0 then 0
      else let q = pow2 (max (exponent x) (- 1022) - 52)
           in of_int (roundHalfEven (x / q)) * q)"

definition fromReal :: "real \<Rightarrow> number" where
  "fromReal x =
     (let r = roundDouble x
      in if exponent r \<ge> 1024 then (if r > 0 then Infinity else MinusInfinity)
         else Num r)"

text \<open>
  The arithmetic of the language: the exact result rounded, with the rules of IEEE 754
  for the infinities and \<^verbatim>\<open>NaN\<close>. \<^verbatim>\<open>a - b\<close> is \<^verbatim>\<open>a + (-b)\<close>. A comparison with \<^verbatim>\<open>NaN\<close> is
  false.
\<close>

fun js_neg :: "number \<Rightarrow> number" where
  "js_neg (Num x) = Num (- x)"
| "js_neg Infinity = MinusInfinity"
| "js_neg MinusInfinity = Infinity"
| "js_neg NaN = NaN"

fun js_add :: "number \<Rightarrow> number \<Rightarrow> number" where
  "js_add (Num x) (Num y) = fromReal (x + y)"
| "js_add NaN b = NaN"
| "js_add a NaN = NaN"
| "js_add Infinity MinusInfinity = NaN"
| "js_add MinusInfinity Infinity = NaN"
| "js_add Infinity b = Infinity"
| "js_add a Infinity = Infinity"
| "js_add MinusInfinity b = MinusInfinity"
| "js_add a MinusInfinity = MinusInfinity"

definition js_sub :: "number \<Rightarrow> number \<Rightarrow> number" where
  "js_sub a b = js_add a (js_neg b)"

fun js_mul :: "number \<Rightarrow> number \<Rightarrow> number" where
  "js_mul (Num x) (Num y) = fromReal (x * y)"
| "js_mul NaN b = NaN"
| "js_mul a NaN = NaN"
| "js_mul (Num x) Infinity = (if x = 0 then NaN else if x > 0 then Infinity else MinusInfinity)"
| "js_mul (Num x) MinusInfinity = (if x = 0 then NaN else if x > 0 then MinusInfinity else Infinity)"
| "js_mul Infinity (Num y) = (if y = 0 then NaN else if y > 0 then Infinity else MinusInfinity)"
| "js_mul MinusInfinity (Num y) = (if y = 0 then NaN else if y > 0 then MinusInfinity else Infinity)"
| "js_mul Infinity Infinity = Infinity"
| "js_mul Infinity MinusInfinity = MinusInfinity"
| "js_mul MinusInfinity Infinity = MinusInfinity"
| "js_mul MinusInfinity MinusInfinity = Infinity"

fun js_lt :: "number \<Rightarrow> number \<Rightarrow> bool" where
  "js_lt (Num x) (Num y) = (x < y)"
| "js_lt NaN b = False"
| "js_lt a NaN = False"
| "js_lt a MinusInfinity = False"
| "js_lt Infinity b = False"
| "js_lt MinusInfinity b = True"
| "js_lt a Infinity = True"

fun js_le :: "number \<Rightarrow> number \<Rightarrow> bool" where
  "js_le (Num x) (Num y) = (x \<le> y)"
| "js_le NaN b = False"
| "js_le a NaN = False"
| "js_le MinusInfinity b = True"
| "js_le a Infinity = True"
| "js_le a MinusInfinity = False"
| "js_le Infinity b = False"

definition js_gt :: "number \<Rightarrow> number \<Rightarrow> bool" where
  "js_gt a b = js_lt b a"

definition js_ge :: "number \<Rightarrow> number \<Rightarrow> bool" where
  "js_ge a b = js_le b a"

text \<open>
  \<^verbatim>\<open>Math.floor\<close>, \<^verbatim>\<open>Math.max\<close> and \<^verbatim>\<open>Math.min\<close> (which give \<^verbatim>\<open>NaN\<close> when an argument is
  \<^verbatim>\<open>NaN\<close>), \<^verbatim>\<open>Number.isFinite\<close>, and \<^verbatim>\<open>v || 0\<close> for a number \<^verbatim>\<open>v\<close>, which is \<^verbatim>\<open>v\<close> unless
  \<^verbatim>\<open>v\<close> is zero or \<^verbatim>\<open>NaN\<close>.
\<close>

fun Math_floor :: "number \<Rightarrow> number" where
  "Math_floor (Num x) = Num (of_int \<lfloor>x\<rfloor>)"
| "Math_floor Infinity = Infinity"
| "Math_floor MinusInfinity = MinusInfinity"
| "Math_floor NaN = NaN"

definition Math_max :: "number \<Rightarrow> number \<Rightarrow> number" where
  "Math_max a b = (if a = NaN \<or> b = NaN then NaN else if js_lt a b then b else a)"

definition Math_min :: "number \<Rightarrow> number \<Rightarrow> number" where
  "Math_min a b = (if a = NaN \<or> b = NaN then NaN else if js_lt b a then b else a)"

fun isFinite :: "number \<Rightarrow> bool" where
  "isFinite (Num x) = True"
| "isFinite v = False"

definition orZero :: "number \<Rightarrow> number" where
  "orZero v = (if v = Num 0 \<or> v = NaN then Num 0 else v)"

section \<open>Pricing utility (utils/cartUtils.ts)\<close>

text \<open>The literal \<^verbatim>\<open>0.1\<close> is the double nearest to one tenth.\<close>

definition calculateDeliveryFee :: "number \<Rightarrow> number" where
  "calculateDeliveryFee subtotal =
     (if js_ge subtotal (Num 500) then Num 0
      else let fee = Math_floor (js_mul subtotal (fromReal 0.1))
           in Math_min (Num 50) (Math_max (Num 10) fee))"

section \<open>Documents (models/productModel.ts, models/orderModel.ts)\<close>

text \<open>
  An \<^verbatim>\<open>ObjectId\<close> is modelled by its canonical rendering, the string of 24 lower-case
  hexadecimal digits that \<^verbatim>\<open>toString()\<close> returns. A collection whose documents are looked
  up by \<^verbatim>\<open>_id\<close> only is a map from the \<^verbatim>\<open>_id\<close> to the document; the order collection,
  which is also listed and sorted, is a list of documents that carry their \<^verbatim>\<open>_id\<close>.
  The fields of a record carry a prefix for the record (\<open>p_stock\<close> is the \<^verbatim>\<open>stock\<close> of a
  product). Of a product, the fields that the controllers modelled here read or write are
  kept; category, unit, description, image, threshold, flags, revenue and expiry date are
  left out.
\<close>

type_synonym objectId = string

datatype productStatus = Draft | Active | Inactive | Out_of_stock

record IProduct =
  p_name :: string
  p_price :: number
  p_stock :: number
  p_status :: productStatus
  p_farmer :: objectId
  p_totalSold :: number
  p_views :: number
  p_totalValue :: number

record IOrderItem =
  oi_product :: objectId
  oi_quantity :: number
  oi_price :: number

record IOrder =
  o_id :: objectId
  o_user :: objectId
  o_items :: "IOrderItem list"
  o_subtotal :: number
  o_deliveryFee :: number
  o_total :: number
  o_status :: string
  o_createdAt :: int
  o_updatedAt :: int

text \<open>
  The cart and user models are not among the source files. Their shape is read off the
  controllers that use them: a cart belongs to one user and holds the lines
  \<^verbatim>\<open>{product, quantity}\<close>; a user has an \<^verbatim>\<open>_id\<close>, a name and a role. The cart collection is
  keyed by the user, as \<^verbatim>\<open>Cart.findOne({ user })\<close> reads it.
\<close>

record ICartItem =
  ci_product :: objectId
  ci_quantity :: number

record ICart =
  c_items :: "ICartItem list"

record IUser =
  u_id :: objectId
  u_name :: string
  u_role :: string

record db =
  users :: "objectId \<rightharpoonup> IUser"
  products :: "objectId \<rightharpoonup> IProduct"
  carts :: "objectId \<rightharpoonup> ICart"
  orders :: "IOrder list"

subsection \<open>Schema validators\<close>

text \<open>
  Validation of a document runs when it is created and whenever it is saved, over the
  whole document. \<^verbatim>\<open>orderItemSchema\<close>: \<^verbatim>\<open>quantity: { min: 1 }\<close>, \<^verbatim>\<open>price: { min: 0 }\<close>.
  \<^verbatim>\<open>orderSchema\<close>: \<^verbatim>\<open>status: { enum: ['placed', 'shipped', 'delivered', 'cancelled'],
  default: 'placed' }\<close>; the required numbers \<^verbatim>\<open>subtotal\<close>, \<^verbatim>\<open>deliveryFee\<close> and \<^verbatim>\<open>total\<close>
  must cast to a number, which \<^verbatim>\<open>NaN\<close> does not. \<^verbatim>\<open>productSchema\<close>: \<^verbatim>\<open>min: 0\<close> for
  \<^verbatim>\<open>price\<close>, \<^verbatim>\<open>stock\<close> and \<^verbatim>\<open>totalValue\<close>; the stored values of the product fields
  that this model leaves out are taken to pass their validators.
\<close>

definition orderItemSchema_valid :: "IOrderItem \<Rightarrow> bool" where
  "orderItemSchema_valid i = (js_ge (oi_quantity i) (Num 1) \<and> js_ge (oi_price i) (Num 0))"

definition productSchema_valid :: "IProduct \<Rightarrow> bool" where
  "productSchema_valid p =
     (js_ge (p_price p) (Num 0) \<and> js_ge (p_stock p) (Num 0) \<and> js_ge (p_totalValue p) (Num 0))"

definition orderStatusEnum :: "string list" where
  "orderStatusEnum = [''placed'', ''shipped'', ''delivered'', ''cancelled'']"

definition orderSchema_valid :: "IOrder \<Rightarrow> bool" where
  "orderSchema_valid ord =
     (list_all orderItemSchema_valid (o_items ord)
      \<and> o_subtotal ord \<noteq> NaN \<and> o_deliveryFee ord \<noteq> NaN \<and> o_total ord \<noteq> NaN
      \<and> o_status ord \<in> set orderStatusEnum)"

subsection \<open>Responses\<close>

text \<open>
  A response is the HTTP status with the JSON body. The message texts of the controllers
  are the constructors of \<open>message\<close>; the values a template interpolates are the
  constructor's arguments.
\<close>

datatype message =
    Cart_is_empty
  | Product_not_available "IProduct option"
  | Insufficient_stock string number
  | Server_error
  | Order_not_found
  | Not_authorized_to_view_this_order
  | Invalid_status
  | Failed_to_update_order
  | Not_authenticated
  | ProductId_is_required
  | Invalid_productId
  | Product_not_found_or_inactive
  | Product_not_found
  | Not_authorized_to_update_this_product
  | Failed_to_update_product
  | Failed_to_fetch_product

datatype 'a body = Message message | Json 'a

type_synonym 'a response = "nat \<times> 'a body"

section \<open>Checkout (controllers/orderController.ts)\<close>

text \<open>
  \<^verbatim>\<open>populate('items.product')\<close> replaces each line's product reference by the product
  document, or by \<^verbatim>\<open>null\<close> when no product has that \<^verbatim>\<open>_id\<close>. A populated line is the
  pair of the looked-up product and the stored line.
\<close>

type_synonym populatedItem = "IProduct option \<times> ICartItem"

definition populateItems :: "db \<Rightarrow> ICartItem list \<Rightarrow> populatedItem list" where
  "populateItems d its = map (\<lambda>i. (products d (ci_product i), i)) its"

text \<open>The \<^verbatim>\<open>for (const item of cart.items)\<close> loop, with \<^verbatim>\<open>subtotal\<close> and \<^verbatim>\<open>orderItems\<close>.\<close>

fun checkoutLoop ::
  "populatedItem list \<Rightarrow> number \<Rightarrow> IOrderItem list \<Rightarrow> message + (number \<times> IOrderItem list)"
where
  "checkoutLoop [] subtotal orderItems = Inr (subtotal, orderItems)"
| "checkoutLoop ((populated, item) # rest) subtotal orderItems =
     (case populated of
        None \<Rightarrow> Inl (Product_not_available None)
      | Some product \<Rightarrow>
          if p_status product \<noteq> Active then Inl (Product_not_available (Some product))
          else if js_lt (p_stock product) (ci_quantity item)
          then Inl (Insufficient_stock (p_name product) (p_stock product))
          else checkoutLoop rest (js_add subtotal (js_mul (p_price product) (ci_quantity item)))
                 (orderItems @ [\<lparr>oi_product = ci_product item,
                                  oi_quantity = ci_quantity item,
                                  oi_price = p_price product\<rparr>]))"

text \<open>
  One \<^verbatim>\<open>updateOne\<close> of the bulk write: the filter's \<^verbatim>\<open>_id\<close>, the two \<^verbatim>\<open>$inc\<close> amounts and
  the \<^verbatim>\<open>$set\<close> status. The status is computed from the populated product, that is from
  the stock read before any write. Reading \<^verbatim>\<open>item.product._id\<close> of an unresolved line would
  throw. \<^verbatim>\<open>$inc\<close> adds in the database; on the numbers the driver stores (32-bit integers
  and doubles) that is the double sum.
\<close>

record bulkOp =
  filter_id :: objectId
  inc_stock :: number
  inc_totalSold :: number
  set_status :: productStatus

fun bulkOps :: "populatedItem list \<Rightarrow> bulkOp list option" where
  "bulkOps [] = Some []"
| "bulkOps ((None, item) # rest) = None"
| "bulkOps ((Some product, item) # rest) =
     (case bulkOps rest of
        None \<Rightarrow> None
      | Some ops \<Rightarrow>
          Some (\<lparr>filter_id = ci_product item,
                 inc_stock = js_neg (ci_quantity item),
                 inc_totalSold = ci_quantity item,
                 set_status = (if js_le (js_sub (p_stock product) (ci_quantity item)) (Num 0)
                               then Out_of_stock else Active)\<rparr> # ops))"

definition updateOne :: "bulkOp \<Rightarrow> (objectId \<rightharpoonup> IProduct) \<Rightarrow> (objectId \<rightharpoonup> IProduct)" where
  "updateOne op ps =
     (case ps (filter_id op) of
        None \<Rightarrow> ps
      | Some p \<Rightarrow>
          ps(filter_id op \<mapsto>
             p\<lparr>p_stock := js_add (p_stock p) (inc_stock op),
               p_totalSold := js_add (p_totalSold p) (inc_totalSold op),
               p_status := set_status op\<rparr>))"

fun bulkWrite :: "bulkOp list \<Rightarrow> (objectId \<rightharpoonup> IProduct) \<Rightarrow> (objectId \<rightharpoonup> IProduct)" where
  "bulkWrite [] ps = ps"
| "bulkWrite (op # ops) ps = bulkWrite ops (updateOne op ps)"

text \<open>
  \<^verbatim>\<open>checkout\<close>. The \<^verbatim>\<open>_id\<close> of the new order and the time of its creation come from the
  environment. \<^verbatim>\<open>Order.create\<close> validates the document against the schema before it is
  stored; a validation error is caught by the handler's \<^verbatim>\<open>catch\<close>, which answers 500.
\<close>

definition checkout :: "objectId \<Rightarrow> int \<Rightarrow> IUser \<Rightarrow> db \<Rightarrow> IOrder response \<times> db" where
  "checkout newId now reqUser d =
     (case carts d (u_id reqUser) of
        None \<Rightarrow> ((400, Message Cart_is_empty), d)
      | Some cart \<Rightarrow>
          if c_items cart = [] then ((400, Message Cart_is_empty), d)
          else
            (case checkoutLoop (populateItems d (c_items cart)) (Num 0) [] of
               Inl m \<Rightarrow> ((400, Message m), d)
             | Inr (subtotal, orderItems) \<Rightarrow>
                 let deliveryFee = calculateDeliveryFee subtotal;
                     total = js_add subtotal deliveryFee;
                     ord = \<lparr>o_id = newId, o_user = u_id reqUser, o_items = orderItems,
                            o_subtotal = subtotal, o_deliveryFee = deliveryFee,
                            o_total = total, o_status = ''placed'',
                            o_createdAt = now, o_updatedAt = now\<rparr>
                 in if \<not> orderSchema_valid ord then ((500, Message Server_error), d)
                    else
                      let d1 = d\<lparr>orders := orders d @ [ord]\<rparr> in
                      (case bulkOps (populateItems d (c_items cart)) of
                         None \<Rightarrow> ((500, Message Server_error), d1)
                       | Some ops \<Rightarrow>
                           let d2 = (if ops \<noteq> [] then d1\<lparr>products := bulkWrite ops (products d1)\<rparr>
                                     else d1);
                               d3 = d2\<lparr>carts := (carts d2)(u_id reqUser \<mapsto> cart\<lparr>c_items := []\<rparr>)\<rparr>
                           in ((201, Json ord), d3))))"

section \<open>Cart (cart controller)\<close>

subsection \<open>Reading the cart\<close>

record cartSummary =
  cs_items :: "populatedItem list"
  cs_subtotal :: number
  cs_deliveryFee :: number
  cs_total :: number

text \<open>
  The \<^verbatim>\<open>reduce\<close> of \<^verbatim>\<open>getCart\<close>. Reading \<^verbatim>\<open>price\<close> of a line whose product is \<^verbatim>\<open>null\<close>
  throws a \<^verbatim>\<open>TypeError\<close>: the result is \<^const>\<open>None\<close>.
\<close>

fun cartSubtotal :: "populatedItem list \<Rightarrow> number \<Rightarrow> number option" where
  "cartSubtotal [] acc = Some acc"
| "cartSubtotal ((None, item) # rest) acc = None"
| "cartSubtotal ((Some product, item) # rest) acc =
     (let productPrice = orZero (p_price product)
      in cartSubtotal rest (js_add acc (js_mul productPrice (ci_quantity item))))"

definition getCart :: "IUser option \<Rightarrow> db \<Rightarrow> cartSummary response" where
  "getCart reqUser d =
     (case reqUser of
        None \<Rightarrow> (401, Message Not_authenticated)
      | Some usr \<Rightarrow>
          (case carts d (u_id usr) of
             None \<Rightarrow>
               (200, Json \<lparr>cs_items = [], cs_subtotal = Num 0, cs_deliveryFee = Num 0,
                           cs_total = Num 0\<rparr>)
           | Some cart \<Rightarrow>
               (case cartSubtotal (populateItems d (c_items cart)) (Num 0) of
                  None \<Rightarrow> (500, Message Server_error)
                | Some subtotal \<Rightarrow>
                    let deliveryFee = calculateDeliveryFee subtotal;
                        total = js_add subtotal deliveryFee
                    in (200, Json \<lparr>cs_items = populateItems d (c_items cart),
                                    cs_subtotal = subtotal,
                                    cs_deliveryFee = deliveryFee,
                                    cs_total = total\<rparr>))))"

subsection \<open>Adding to the cart\<close>

text \<open>
  \<^verbatim>\<open>ObjectId.isValid\<close> and the cast of a string to an \<^verbatim>\<open>ObjectId\<close> (bson 5, which
  mongoose 7 uses): a string of 24 hexadecimal digits in either case is the id it spells,
  a string of 12 bytes is the id with those bytes, anything else is invalid.
\<close>

definition isHexDigit :: "char \<Rightarrow> bool" where
  "isHexDigit c = (c \<in> set ''0123456789abcdefABCDEF'')"

definition toLowerHex :: "char \<Rightarrow> char" where
  "toLowerHex c =
     (if c = CHR ''A'' then CHR ''a'' else if c = CHR ''B'' then CHR ''b''
      else if c = CHR ''C'' then CHR ''c'' else if c = CHR ''D'' then CHR ''d''
      else if c = CHR ''E'' then CHR ''e'' else if c = CHR ''F'' then CHR ''f'' else c)"

definition hexOfByte :: "char \<Rightarrow> string" where
  "hexOfByte c = [''0123456789abcdef'' ! (of_char c div 16), ''0123456789abcdef'' ! (of_char c mod 16)]"

definition castObjectId :: "string \<Rightarrow> objectId option" where
  "castObjectId s =
     (if length s = 12 \<and> list_all (\<lambda>c. (of_char c :: nat) < 128) s
      then Some (concat (map hexOfByte s))
      else if length s = 24 \<and> list_all isHexDigit s then Some (map toLowerHex s)
      else None)"

definition isValid :: "string \<Rightarrow> bool" where
  "isValid s = (castObjectId s \<noteq> None)"

text \<open>
  The request body of \<^verbatim>\<open>addToCart\<close>. \<^verbatim>\<open>productId\<close> is absent, a string, or an object
  that may carry the strings \<^verbatim>\<open>_id\<close> and \<^verbatim>\<open>id\<close>; \<^verbatim>\<open>quantity\<close> is absent or a number
  (other JSON values are outside this model).
\<close>

datatype productIdParam =
    NoProductId
  | ProductIdString string
  | ProductObject "string option" "string option"

record cartRequest =
  productId :: productIdParam
  quantity :: "number option"

text \<open>
  \<^verbatim>\<open>productId._id || productId.id || undefined\<close> for an object, and the check
  \<^verbatim>\<open>!productId\<close>: the result is \<^const>\<open>None\<close> when the id is absent or the empty string.
\<close>

definition truthyString :: "string option \<Rightarrow> string option" where
  "truthyString v = (case v of None \<Rightarrow> None | Some s \<Rightarrow> if s = [] then None else Some s)"

definition normaliseProductId :: "productIdParam \<Rightarrow> string option" where
  "normaliseProductId pid =
     (case pid of
        NoProductId \<Rightarrow> None
      | ProductIdString s \<Rightarrow> truthyString (Some s)
      | ProductObject v1 v2 \<Rightarrow>
          (case truthyString v1 of Some s \<Rightarrow> Some s | None \<Rightarrow> truthyString v2))"

text \<open>
  \<^verbatim>\<open>existingItem.quantity += quantity\<close> on the first line whose product renders as the
  requested string.
\<close>

fun incrementFirst :: "string \<Rightarrow> number \<Rightarrow> ICartItem list \<Rightarrow> ICartItem list" where
  "incrementFirst pid q [] = []"
| "incrementFirst pid q (item # rest) =
     (if ci_product item = pid then item\<lparr>ci_quantity := js_add (ci_quantity item) q\<rparr> # rest
      else item # incrementFirst pid q rest)"

text \<open>
  \<^verbatim>\<open>addToCart\<close>. The first argument is the validation that the cart schema applies to a
  line when the cart is saved: the cart model is not among the source files, so the
  validation is a parameter. \<^verbatim>\<open>save\<close> validates every line of the cart; a validation
  error is caught by the handler's \<^verbatim>\<open>catch\<close>, which answers 500. The upsert that creates
  a missing cart has been written by then. \<^verbatim>\<open>Product.findById\<close> and the push of the new
  line cast the request's string to an \<^verbatim>\<open>ObjectId\<close>; after \<^const>\<open>isValid\<close> the cast
  cannot fail.
\<close>

definition addToCart ::
  "(ICartItem \<Rightarrow> bool) \<Rightarrow> IUser option \<Rightarrow> cartRequest \<Rightarrow> db \<Rightarrow> ICart response \<times> db"
where
  "addToCart cartItemSchema_valid reqUser body d =
     (case reqUser of
        None \<Rightarrow> ((401, Message Not_authenticated), d)
      | Some usr \<Rightarrow>
          let qty = (case quantity body of None \<Rightarrow> Num 1 | Some q \<Rightarrow> q) in
          (case normaliseProductId (productId body) of
             None \<Rightarrow> ((400, Message ProductId_is_required), d)
           | Some pid \<Rightarrow>
               if \<not> isValid pid then ((400, Message Invalid_productId), d)
               else
               (case castObjectId pid of
                  None \<Rightarrow> ((500, Message Server_error), d)
                | Some oid \<Rightarrow>
                    (case products d oid of
                       None \<Rightarrow> ((404, Message Product_not_found_or_inactive), d)
                     | Some product \<Rightarrow>
                         if p_status product \<noteq> Active
                         then ((404, Message Product_not_found_or_inactive), d)
                         else
                           let cart = (case carts d (u_id usr) of
                                         None \<Rightarrow> \<lparr>c_items = []\<rparr>
                                       | Some c \<Rightarrow> c);
                               d1 = d\<lparr>carts := (carts d)(u_id usr \<mapsto> cart)\<rparr>
                           in
                           let items' =
                                 (case find (\<lambda>item. ci_product item = pid) (c_items cart) of
                                    Some existingItem \<Rightarrow> incrementFirst pid qty (c_items cart)
                                  | None \<Rightarrow> c_items cart @ [\<lparr>ci_product = oid, ci_quantity = qty\<rparr>]);
                               cart' = cart\<lparr>c_items := items'\<rparr>
                           in if \<not> list_all cartItemSchema_valid items'
                              then ((500, Message Server_error), d1)
                              else ((200, Json cart'),
                                    d1\<lparr>carts := (carts d1)(u_id usr \<mapsto> cart')\<rparr>)))))"

text \<open>
  Modelled from the spec: the line validation of the cart schema (\<^verbatim>\<open>models/cartModel\<close> is
  imported by the controllers but is not among the source files). The spec's data model
  gives a cart as an "ordered sequence of {product reference, quantity \<ge>1}".
\<close>

definition cartItemSchema_spec :: "ICartItem \<Rightarrow> bool" where
  "cartItemSchema_spec item = js_ge (ci_quantity item) (Num 1)"

section \<open>Order queries (controllers/orderController.ts)\<close>

record populatedOrder =
  po_order :: IOrder
  po_products :: "IProduct option list"
  po_user :: "IUser option"

text \<open>
  \<^verbatim>\<open>populate('items.product user', '-password')\<close> populates both paths, so afterwards
  \<^verbatim>\<open>order.user\<close> is the user document (or \<^verbatim>\<open>null\<close> when the user is gone) and no longer
  the \<^verbatim>\<open>ObjectId\<close>. \<^verbatim>\<open>toString()\<close> of a mongoose document is the rendering that
  \<^verbatim>\<open>inspect\<close> gives of the document, an object literal in braces; its exact layout does
  not matter here, only that it is not the hexadecimal rendering of an id.
\<close>

definition documentToString :: "IUser \<Rightarrow> string" where
  "documentToString usr =
     ''{ _id: new ObjectId('' @ u_id usr @ ''), name: '' @ u_name usr
       @ '', role: '' @ u_role usr @ '' }''"

definition populateOrder :: "db \<Rightarrow> IOrder \<Rightarrow> populatedOrder" where
  "populateOrder d ord =
     \<lparr>po_order = ord,
      po_products = map (\<lambda>item. products d (oi_product item)) (o_items ord),
      po_user = users d (o_user ord)\<rparr>"

text \<open>
  \<^verbatim>\<open>getOrderById\<close>. A request id that is no \<^verbatim>\<open>ObjectId\<close> makes \<^verbatim>\<open>findById\<close> throw a
  cast error, and \<^verbatim>\<open>order.user.toString()\<close> throws when the populated user is \<^verbatim>\<open>null\<close>;
  both end in the handler's \<^verbatim>\<open>catch\<close>.
\<close>

definition getOrderById :: "IUser \<Rightarrow> string \<Rightarrow> db \<Rightarrow> populatedOrder response" where
  "getOrderById reqUser idParam d =
     (case castObjectId idParam of
        None \<Rightarrow> (500, Message Server_error)
      | Some oid \<Rightarrow>
          (case find (\<lambda>ord. o_id ord = oid) (orders d) of
             None \<Rightarrow> (404, Message Order_not_found)
           | Some ord \<Rightarrow>
               let order = populateOrder d ord in
               (case po_user order of
                  None \<Rightarrow> (500, Message Server_error)
                | Some orderUser \<Rightarrow>
                    if documentToString orderUser \<noteq> u_id reqUser \<and> u_role reqUser \<noteq> ''admin''
                    then (403, Message Not_authorized_to_view_this_order)
                    else (200, Json order))))"

text \<open>
  \<^verbatim>\<open>getFarmerOrders\<close>. The query keeps the orders that have a line with a product
  reference; every line has one, so these are the orders with at least one line.
  \<^verbatim>\<open>populate\<close> with \<^verbatim>\<open>match: { farmer }\<close> resolves a line to its product only when the
  product exists and belongs to the farmer, and to \<^verbatim>\<open>null\<close> otherwise.
\<close>

definition populateMatch :: "db \<Rightarrow> objectId \<Rightarrow> IOrderItem \<Rightarrow> IProduct option" where
  "populateMatch d farmerId item =
     (case products d (oi_product item) of
        None \<Rightarrow> None
      | Some p \<Rightarrow> if p_farmer p = farmerId then Some p else None)"

definition belongsTo :: "objectId \<Rightarrow> IProduct option \<Rightarrow> bool" where
  "belongsTo farmerId populated =
     (case populated of None \<Rightarrow> False | Some p \<Rightarrow> p_farmer p = farmerId)"

definition getFarmerOrders :: "IUser \<Rightarrow> db \<Rightarrow> populatedOrder list response" where
  "getFarmerOrders reqUser d =
     (let found = filter (\<lambda>ord. o_items ord \<noteq> []) (orders d);
          populated = map (\<lambda>ord. \<lparr>po_order = ord,
                                   po_products = map (populateMatch d (u_id reqUser)) (o_items ord),
                                   po_user = users d (o_user ord)\<rparr>) found;
          sorted = sort_key (\<lambda>po. - o_createdAt (po_order po)) populated;
          filteredOrders = filter (\<lambda>po. list_ex (belongsTo (u_id reqUser)) (po_products po)) sorted
      in (200, Json filteredOrders))"

section \<open>Order administration (controllers/adminOrderController.ts)\<close>

datatype jsValue = JUndefined | JNull | JBool bool | JNum number | JStr string

definition allowedStatuses :: "string list" where
  "allowedStatuses = [''processing'', ''in_transit'', ''delivered'', ''cancelled'']"

definition includes_js :: "string list \<Rightarrow> jsValue \<Rightarrow> bool" where
  "includes_js xs v = (case v of JStr s \<Rightarrow> s \<in> set xs | _ \<Rightarrow> False)"

text \<open>
  \<^verbatim>\<open>updateOrderStatus\<close>. \<^verbatim>\<open>order.save()\<close> validates the order, with its new status
  against the enum of \<^verbatim>\<open>orderSchema\<close>; a validation error is caught and answered
  with 500, and nothing is stored.
\<close>

definition updateOrderStatus :: "int \<Rightarrow> jsValue \<Rightarrow> string \<Rightarrow> db \<Rightarrow> IOrder response \<times> db" where
  "updateOrderStatus now status idParam d =
     (if \<not> includes_js allowedStatuses status then ((400, Message Invalid_status), d)
      else
        (case castObjectId idParam of
           None \<Rightarrow> ((500, Message Failed_to_update_order), d)
         | Some oid \<Rightarrow>
             (case find (\<lambda>ord. o_id ord = oid) (orders d) of
                None \<Rightarrow> ((404, Message Order_not_found), d)
              | Some ord \<Rightarrow>
                  let ord' = ord\<lparr>o_status := (case status of JStr s \<Rightarrow> s | _ \<Rightarrow> o_status ord)\<rparr>
                  in if \<not> orderSchema_valid ord'
                     then ((500, Message Failed_to_update_order), d)
                     else
                       let updated = ord'\<lparr>o_updatedAt := now\<rparr>
                       in ((200, Json updated),
                           d\<lparr>orders := map (\<lambda>x. if o_id x = oid then updated else x) (orders d)\<rparr>))))"

section \<open>Product mutations (models/productModel.ts, controllers/productController.ts)\<close>

text \<open>The \<^verbatim>\<open>pre('save')\<close> hook of the product schema.\<close>

definition preSave :: "IProduct \<Rightarrow> IProduct" where
  "preSave this =
     (let this1 = this\<lparr>p_totalValue := js_mul (p_price this) (p_stock this)\<rparr>
      in if js_le (p_stock this1) (Num 0) then this1\<lparr>p_status := Out_of_stock\<rparr>
         else if p_status this1 = Out_of_stock \<and> js_gt (p_stock this1) (Num 0)
         then this1\<lparr>p_status := Active\<rparr>
         else this1)"

text \<open>
  \<^verbatim>\<open>getProduct\<close> counts a view and saves the document. Saving validates the document
  first and then runs the hook; a validation error is caught by the handler, which
  answers 500 "Failed to fetch product" and stores nothing.
\<close>

definition getProduct :: "objectId \<Rightarrow> db \<Rightarrow> IProduct response \<times> db" where
  "getProduct pid d =
     (case products d pid of
        None \<Rightarrow> ((404, Message Product_not_found), d)
      | Some product \<Rightarrow>
          let viewed = product\<lparr>p_views := js_add (p_views product) (Num 1)\<rparr>
          in if \<not> productSchema_valid viewed then ((500, Message Failed_to_fetch_product), d)
             else
               let updatedProduct = preSave viewed
               in ((200, Json updatedProduct),
                   d\<lparr>products := (products d)(pid \<mapsto> updatedProduct)\<rparr>))"

text \<open>
  \<^verbatim>\<open>updateProduct\<close>, the farmer's edit, for the fields of the request that this model
  carries (name, price, stock). It writes with \<^verbatim>\<open>findByIdAndUpdate\<close>, which applies the
  given fields and, with \<^verbatim>\<open>runValidators\<close>, the validators of those fields
  (\<^verbatim>\<open>min: 0\<close> for price and for stock); it does not run the \<^verbatim>\<open>save\<close> hook.
\<close>

record productUpdate =
  up_name :: "string option"
  up_price :: "number option"
  up_stock :: "number option"

definition updateProduct :: "IUser \<Rightarrow> objectId \<Rightarrow> productUpdate \<Rightarrow> db \<Rightarrow> IProduct response \<times> db" where
  "updateProduct reqUser pid body d =
     (case products d pid of
        None \<Rightarrow> ((404, Message Product_not_found), d)
      | Some product \<Rightarrow>
          if p_farmer product \<noteq> u_id reqUser
          then ((403, Message Not_authorized_to_update_this_product), d)
          else
            let newStatus =
                  (case up_stock body of
                     None \<Rightarrow> None
                   | Some newStock \<Rightarrow>
                       if \<not> isFinite newStock then None
                       else if js_le newStock (Num 0) then Some Out_of_stock
                       else if p_status product = Out_of_stock \<and> js_gt newStock (Num 0)
                       then Some Active
                       else None)
            in if (case up_price body of None \<Rightarrow> False | Some v \<Rightarrow> \<not> js_ge v (Num 0))
                  \<or> (case up_stock body of None \<Rightarrow> False | Some v \<Rightarrow> \<not> js_ge v (Num 0))
               then ((500, Message Failed_to_update_product), d)
               else
                 let updatedProduct =
                       product\<lparr>p_name := (case up_name body of None \<Rightarrow> p_name product | Some v \<Rightarrow> v),
                               p_price := (case up_price body of None \<Rightarrow> p_price product | Some v \<Rightarrow> v),
                               p_stock := (case up_stock body of None \<Rightarrow> p_stock product | Some v \<Rightarrow> v),
                               p_status := (case newStatus of None \<Rightarrow> p_status product | Some v \<Rightarrow> v)\<rparr>
                 in ((200, Json updatedProduct),
                     d\<lparr>products := (products d)(pid \<mapsto> updatedProduct)\<rparr>))"

section \<open>Example data\<close>

text \<open>
  A farmer, a buyer and an administrator; one product, tomatoes at 100 with 5 in stock
  (the spec's end-to-end scenario), and carts and orders over it.
\<close>

definition farmerId :: objectId where "farmerId = ''f00000000000000000000001''"
definition buyerId :: objectId where "buyerId = ''b00000000000000000000001''"
definition otherBuyerId :: objectId where "otherBuyerId = ''b00000000000000000000002''"
definition adminId :: objectId where "adminId = ''ad0000000000000000000001''"
definition tomatoId :: objectId where "tomatoId = ''aaaaaaaaaaaaaaaaaaaaaaa1''"
definition orderId1 :: objectId where "orderId1 = ''0d0000000000000000000001''"

definition farmer :: IUser where
  "farmer = \<lparr>u_id = farmerId, u_name = ''Farida'', u_role = ''farmer''\<rparr>"

definition buyer :: IUser where
  "buyer = \<lparr>u_id = buyerId, u_name = ''Bina'', u_role = ''buyer''\<rparr>"

definition otherBuyer :: IUser where
  "otherBuyer = \<lparr>u_id = otherBuyerId, u_name = ''Omar'', u_role = ''buyer''\<rparr>"

definition admin :: IUser where
  "admin = \<lparr>u_id = adminId, u_name = ''Adil'', u_role = ''admin''\<rparr>"

definition tomato :: IProduct where
  "tomato = \<lparr>p_name = ''Tomato'', p_price = Num 100, p_stock = Num 5, p_status = Active,
             p_farmer = farmerId, p_totalSold = Num 0, p_views = Num 0, p_totalValue = Num 500\<rparr>"

definition exampleUsers :: "objectId \<rightharpoonup> IUser" where
  "exampleUsers = [farmerId \<mapsto> farmer, buyerId \<mapsto> buyer, otherBuyerId \<mapsto> otherBuyer,
                   adminId \<mapsto> admin]"

text \<open>The buyer's cart holds two tomatoes.\<close>

definition dbCart2 :: db where
  "dbCart2 = \<lparr>users = exampleUsers, products = [tomatoId \<mapsto> tomato],
              carts = [buyerId \<mapsto> \<lparr>c_items = [\<lparr>ci_product = tomatoId, ci_quantity = Num 2\<rparr>]\<rparr>],
              orders = []\<rparr>"

text \<open>The buyer's cart asks for six tomatoes, one more than the stock.\<close>

definition dbCart6 :: db where
  "dbCart6 = \<lparr>users = exampleUsers, products = [tomatoId \<mapsto> tomato],
              carts = [buyerId \<mapsto> \<lparr>c_items = [\<lparr>ci_product = tomatoId, ci_quantity = Num 6\<rparr>]\<rparr>],
              orders = []\<rparr>"

text \<open>The buyer's cart holds one line of three tomatoes.\<close>

definition dbCart3 :: db where
  "dbCart3 = \<lparr>users = exampleUsers, products = [tomatoId \<mapsto> tomato],
              carts = [buyerId \<mapsto> \<lparr>c_items = [\<lparr>ci_product = tomatoId, ci_quantity = Num 3\<rparr>]\<rparr>],
              orders = []\<rparr>"

text \<open>The buyer's cart holds two lines for the same product, of three tomatoes each.\<close>

definition dbCartTwice :: db where
  "dbCartTwice = \<lparr>users = exampleUsers, products = [tomatoId \<mapsto> tomato],
              carts = [buyerId \<mapsto> \<lparr>c_items = [\<lparr>ci_product = tomatoId, ci_quantity = Num 3\<rparr>,
                                                  \<lparr>ci_product = tomatoId, ci_quantity = Num 3\<rparr>]\<rparr>],
              orders = []\<rparr>"

text \<open>No cart has been created yet.\<close>

definition dbNoCart :: db where
  "dbNoCart = \<lparr>users = exampleUsers, products = [tomatoId \<mapsto> tomato],
               carts = Map.empty, orders = []\<rparr>"

text \<open>The order that the buyer's checkout of two tomatoes creates, stored.\<close>

definition order1 :: IOrder where
  "order1 = \<lparr>o_id = orderId1, o_user = buyerId,
             o_items = [\<lparr>oi_product = tomatoId, oi_quantity = Num 2, oi_price = Num 100\<rparr>],
             o_subtotal = Num 200, o_deliveryFee = Num 20, o_total = Num 220, o_status = ''placed'',
             o_createdAt = 1000, o_updatedAt = 1000\<rparr>"

definition dbOrdered :: db where
  "dbOrdered = \<lparr>users = exampleUsers,
                products = [tomatoId \<mapsto> tomato\<lparr>p_stock := Num 3, p_totalSold := Num 2\<rparr>],
                carts = [buyerId \<mapsto> \<lparr>c_items = []\<rparr>],
                orders = [order1]\<rparr>"

section \<open>Auxiliary functions for the statements\<close>

text \<open>
  What the checkout loop, the cart summary and the bulk write compute for one populated
  line: the amount the line adds to the subtotal (of the order, of the cart summary), the
  order line it pushes, the update it issues, whether the
  line passes the two checks of the loop, and which message a failing line is answered with.
\<close>

definition lineAmount :: "populatedItem \<Rightarrow> number" where
  "lineAmount x =
     (case fst x of Some p \<Rightarrow> js_mul (p_price p) (ci_quantity (snd x)) | None \<Rightarrow> Num 0)"

definition cartAmount :: "populatedItem \<Rightarrow> number" where
  "cartAmount x =
     (case fst x of
        Some p \<Rightarrow> js_mul (orZero (p_price p)) (ci_quantity (snd x))
      | None \<Rightarrow> Num 0)"

definition lineOrderItem :: "populatedItem \<Rightarrow> IOrderItem" where
  "lineOrderItem x =
     \<lparr>oi_product = ci_product (snd x), oi_quantity = ci_quantity (snd x),
      oi_price = (case fst x of Some p \<Rightarrow> p_price p | None \<Rightarrow> Num 0)\<rparr>"

definition lineOp :: "populatedItem \<Rightarrow> bulkOp" where
  "lineOp x =
     \<lparr>filter_id = ci_product (snd x), inc_stock = js_neg (ci_quantity (snd x)),
      inc_totalSold = ci_quantity (snd x),
      set_status = (case fst x of
                      Some p \<Rightarrow> if js_le (js_sub (p_stock p) (ci_quantity (snd x))) (Num 0)
                                then Out_of_stock else Active
                    | None \<Rightarrow> Active)\<rparr>"

definition lineAvailable :: "populatedItem \<Rightarrow> bool" where
  "lineAvailable x =
     (case fst x of
        Some p \<Rightarrow> p_status p = Active \<and> \<not> js_lt (p_stock p) (ci_quantity (snd x))
      | None \<Rightarrow> False)"

definition lineFails :: "populatedItem \<Rightarrow> message \<Rightarrow> bool" where
  "lineFails x m =
     ((fst x = None \<and> m = Product_not_available None)
    \<or> (\<exists>p. fst x = Some p \<and> p_status p \<noteq> Active \<and> m = Product_not_available (Some p))
    \<or> (\<exists>p. fst x = Some p \<and> p_status p = Active \<and> js_lt (p_stock p) (ci_quantity (snd x))
            \<and> m = Insufficient_stock (p_name p) (p_stock p)))"

text \<open>
  The order that checkout creates from the populated lines of a cart: the subtotal is
  accumulated line by line from 0, as the loop does.
\<close>

definition placedOrder :: "objectId \<Rightarrow> int \<Rightarrow> objectId \<Rightarrow> populatedItem list \<Rightarrow> IOrder" where
  "placedOrder newId now uid xs =
     (let subtotal = foldl js_add (Num 0) (map lineAmount xs);
          deliveryFee = calculateDeliveryFee subtotal
      in \<lparr>o_id = newId, o_user = uid, o_items = map lineOrderItem xs,
          o_subtotal = subtotal, o_deliveryFee = deliveryFee,
          o_total = js_add subtotal deliveryFee, o_status = ''placed'',
          o_createdAt = now, o_updatedAt = now\<rparr>)"

section \<open>Properties of the numbers\<close>

text \<open>
  An integer of magnitude below \<open>2^53\<close> is a double, so rounding leaves it as it is: sums,
  differences and products of small integers are exact.
\<close>

lemma bitLength_le: "m < 2 ^ k \<Longrightarrow> bitLength m \<le> k"
proof (induction k arbitrary: m)
  case 0
  then show ?case by (simp add: bitLength.simps)
next
  case (Suc k)
  show ?case
  proof (cases "m = 0")
    case True
    then show ?thesis by (simp add: bitLength.simps)
  next
    case False
    from Suc.prems have "m div 2 < 2 ^ k" by simp
    from Suc.IH[OF this] False show ?thesis by (subst bitLength.simps) simp
  qed
qed

lemma bitLength_pos: "0 < m \<Longrightarrow> 0 < bitLength m"
  by (subst bitLength.simps) simp

lemma roundHalfEven_of_int: "roundHalfEven (of_int m) = m"
  by (simp add: roundHalfEven_def)

lemma exponent_of_int:
  assumes "\<bar>n\<bar> < 2 ^ 53"
  shows "0 \<le> exponent (of_int n)" and "exponent (of_int n) \<le> 52"
proof -
  show "0 \<le> exponent (of_int n)"
  proof (cases "n = 0")
    case True
    then show ?thesis by (simp add: exponent_def bitLength.simps)
  next
    case False
    then have "1 \<le> \<bar>n\<bar>" by simp
    then have a: "1 \<le> \<bar>real_of_int n\<bar>" by (metis of_int_1_le_iff of_int_abs)
    have "0 < nat \<bar>n\<bar>" using False by simp
    from bitLength_pos[OF this] a show ?thesis
      by (simp add: exponent_def flip: of_int_abs)
  qed
  show "exponent (of_int n) \<le> 52"
  proof (cases "n = 0")
    case True
    then show ?thesis by (simp add: exponent_def bitLength.simps)
  next
    case False
    then have "1 \<le> \<bar>n\<bar>" by simp
    then have a: "1 \<le> \<bar>real_of_int n\<bar>" by (metis of_int_1_le_iff of_int_abs)
    have "nat \<bar>n\<bar> < 2 ^ 53" using assms by (simp add: nat_less_iff)
    from bitLength_le[OF this] a show ?thesis
      by (simp add: exponent_def flip: of_int_abs)
  qed
qed

lemma roundDouble_of_int:
  assumes "\<bar>n\<bar> < 2 ^ 53"
  shows "roundDouble (of_int n) = of_int n"
proof (cases "n = 0")
  case True
  then show ?thesis by (simp add: roundDouble_def)
next
  case False
  let ?e = "exponent (real_of_int n)"
  from exponent_of_int[OF assms] have e: "0 \<le> ?e" "?e \<le> 52" by simp_all
  define k where "k = nat (52 - ?e)"
  have q: "pow2 (max ?e (- 1022) - 52) = 1 / 2 ^ k"
  proof (cases "?e = 52")
    case True
    then show ?thesis by (simp add: pow2_def k_def)
  next
    case False
    with e have "?e - 52 < 0" by simp
    moreover have "max ?e (- 1022) = ?e" using e by simp
    ultimately show ?thesis by (simp add: pow2_def k_def)
  qed
  have "real_of_int n / (1 / 2 ^ k) = of_int (n * 2 ^ k)" by simp
  then have "roundHalfEven (real_of_int n / (1 / 2 ^ k)) = n * 2 ^ k"
    by (simp only: roundHalfEven_of_int)
  then show ?thesis using False q by (simp add: roundDouble_def Let_def)
qed

lemma fromReal_of_int:
  assumes "\<bar>n\<bar> < 2 ^ 53"
  shows "fromReal (of_int n) = Num (of_int n)"
  using roundDouble_of_int[OF assms] exponent_of_int(2)[OF assms]
  by (simp add: fromReal_def Let_def)

lemma fromReal_numeral:
  "(numeral k :: int) < 2 ^ 53 \<Longrightarrow> fromReal (numeral k) = Num (numeral k)"
  using fromReal_of_int[of "numeral k"] by simp

lemma fromReal_neg_numeral:
  "(numeral k :: int) < 2 ^ 53 \<Longrightarrow> fromReal (- numeral k) = Num (- numeral k)"
  using fromReal_of_int[of "- numeral k"] by simp

lemma fromReal_0: "fromReal 0 = Num 0"
  using fromReal_of_int[of 0] by simp

lemma fromReal_1: "fromReal 1 = Num 1"
  using fromReal_of_int[of 1] by simp

lemma fromReal_m1: "fromReal (- 1) = Num (- 1)"
  using fromReal_of_int[of "- 1"] by simp

lemmas fromReal_small = fromReal_numeral fromReal_neg_numeral fromReal_0 fromReal_1 fromReal_m1

lemma fromReal_not_NaN: "fromReal x \<noteq> NaN"
  by (simp add: fromReal_def Let_def)

lemma tenth: "fromReal 0.1 = Num (3602879701896397 / 36028797018963968)"
  by code_simp

lemma orZero_id: "v \<noteq> NaN \<Longrightarrow> orZero v = v"
  by (auto simp: orZero_def)

section \<open>Properties of the pricing utility\<close>

lemma calculateDeliveryFee_range:
  assumes "js_ge subtotal (Num 0)" and "js_lt subtotal (Num 500)"
  shows "js_le (Num 10) (calculateDeliveryFee subtotal)
       \<and> js_le (calculateDeliveryFee subtotal) (Num 50)"
proof -
  from assms obtain x where x: "subtotal = Num x" "x < 500"
    by (cases subtotal) (simp_all add: js_ge_def)
  obtain v where v: "Math_floor (js_mul subtotal (fromReal 0.1)) = v" by simp
  have "v \<noteq> NaN"
    using v x fromReal_not_NaN[of "x * (3602879701896397 / 36028797018963968)"]
    by (cases "fromReal (x * (3602879701896397 / 36028797018963968))") (auto simp: tenth)
  then show ?thesis using x v
    by (cases v) (simp_all add: calculateDeliveryFee_def js_ge_def Math_min_def Math_max_def Let_def)
qed

lemma fee_80: "calculateDeliveryFee (Num 80) = Num 10"
  by code_simp

lemma fee_300: "calculateDeliveryFee (Num 300) = Num 30"
  by code_simp

lemma fee_500: "calculateDeliveryFee (Num 500) = Num 0"
  by code_simp

lemma fee_120: "calculateDeliveryFee (Num 120) = Num 12"
  by code_simp

lemma fee_200: "calculateDeliveryFee (Num 200) = Num 20"
  by code_simp

lemma fee_0: "calculateDeliveryFee (Num 0) = Num 10"
  by code_simp

text \<open>
  Claim C3, amended. For every non-negative number subtotal: from 500 on the fee is 0;
  below 500 it is the floor of the double product of the subtotal and the double nearest
  to 0.1, clamped into the range 10 to 50, and so lies between 10 and 50. The fee of 80
  is 10, the fee of 300 is 30 and the fee of 500 is 0. The fee is a function of the
  subtotal alone, which takes no store and returns none: equal subtotals give equal fees.
\<close>

theorem calculateDeliveryFee_policy:
  assumes "js_ge subtotal (Num 0)"
  shows "(js_ge subtotal (Num 500) \<longrightarrow> calculateDeliveryFee subtotal = Num 0)
       \<and> (js_lt subtotal (Num 500) \<longrightarrow>
            calculateDeliveryFee subtotal
              = Math_min (Num 50) (Math_max (Num 10) (Math_floor (js_mul subtotal (fromReal 0.1))))
            \<and> js_le (Num 10) (calculateDeliveryFee subtotal)
            \<and> js_le (calculateDeliveryFee subtotal) (Num 50))
       \<and> calculateDeliveryFee (Num 80) = Num 10
       \<and> calculateDeliveryFee (Num 300) = Num 30
       \<and> calculateDeliveryFee (Num 500) = Num 0
       \<and> (\<forall>a b. a = b \<longrightarrow> calculateDeliveryFee a = calculateDeliveryFee b)"
proof -
  have ge: "js_ge subtotal (Num 500) \<longrightarrow> calculateDeliveryFee subtotal = Num 0"
    by (simp add: calculateDeliveryFee_def)
  have lt: "js_lt subtotal (Num 500) \<longrightarrow>
            calculateDeliveryFee subtotal
              = Math_min (Num 50) (Math_max (Num 10) (Math_floor (js_mul subtotal (fromReal 0.1))))"
    by (cases subtotal) (simp_all add: calculateDeliveryFee_def js_ge_def Let_def)
  from ge lt calculateDeliveryFee_range[OF assms] fee_80 fee_300 fee_500
  show ?thesis by simp
qed

theorem calculateDeliveryFee_policy_witness:
  "js_ge (Num 120) (Num 0) \<and> js_lt (Num 120) (Num 500)
   \<and> calculateDeliveryFee (Num 120) = Num 12
   \<and> js_le (Num 10) (calculateDeliveryFee (Num 120))"
proof -
  have h: "js_ge (Num 120) (Num 0)" by (simp add: js_ge_def)
  have l: "js_lt (Num 120) (Num 500)" by simp
  from calculateDeliveryFee_policy[OF h] l
  have "js_le (Num 10) (calculateDeliveryFee (Num 120))" by blast
  with h l fee_120 show ?thesis by blast
qed

text \<open>
  Claim C3 with the product and the floor read in exact arithmetic does not hold of the
  code. The double written 109.99999999999999 is 110 - 2^-46; its exact tenth is below
  11, its double product with 0.1 rounds to 11. The fee is 11, the exact formula gives 10.
\<close>

lemma double_below_110: "roundDouble (110 - 1 / 2 ^ 46) = 110 - 1 / 2 ^ 46"
  by code_simp

lemma parse_below_110: "fromReal 109.99999999999999 = Num (110 - 1 / 2 ^ 46)"
  by code_simp

lemma fee_below_110: "calculateDeliveryFee (Num (110 - 1 / 2 ^ 46)) = Num 11"
  by code_simp

theorem calculateDeliveryFee_exact_counterexample:
  "\<not> (\<forall>x. 0 \<le> x \<and> x < 500 \<and> roundDouble x = x \<longrightarrow>
         calculateDeliveryFee (Num x) = Num (min 50 (max 10 (of_int \<lfloor>x * 0.1\<rfloor>))))"
proof
  assume all: "\<forall>x. 0 \<le> x \<and> x < 500 \<and> roundDouble x = x \<longrightarrow>
         calculateDeliveryFee (Num x) = Num (min 50 (max 10 (of_int \<lfloor>x * 0.1\<rfloor>)))"
  define x :: real where "x = 110 - 1 / 2 ^ 46"
  have d: "roundDouble x = x" unfolding x_def by (rule double_below_110)
  have f: "calculateDeliveryFee (Num x) = Num 11" unfolding x_def by (rule fee_below_110)
  have r: "0 \<le> x" "x < 500" unfolding x_def by simp_all
  have fl: "\<lfloor>x * 0.1\<rfloor> = 10" unfolding x_def by simp
  from all r d
  have "calculateDeliveryFee (Num x) = Num (min 50 (max 10 (of_int \<lfloor>x * 0.1\<rfloor>)))"
    by blast
  with f fl show False by simp
qed

text \<open>
  The double written 499.99999999999994 is 500 - 2^-44; its fee is 50, where the exact
  formula gives 49.
\<close>

lemma fee_below_500: "calculateDeliveryFee (fromReal 499.99999999999994) = Num 50"
  by code_simp

section \<open>Properties of checkout\<close>

subsection \<open>A checkout that fails validation\<close>

lemma checkoutLoop_fails:
  assumes "\<exists>x\<in>set xs. fst x = None
             \<or> (\<exists>p. fst x = Some p \<and> (p_status p \<noteq> Active \<or> js_lt (p_stock p) (ci_quantity (snd x))))"
  shows "\<exists>m x. checkoutLoop xs s acc = Inl m \<and> x \<in> set xs \<and> lineFails x m"
  using assms
proof (induction xs arbitrary: s acc)
  case Nil
  then show ?case by simp
next
  case (Cons a xs)
  obtain pr it where a: "a = (pr, it)" by (cases a)
  show ?case
  proof (cases pr)
    case None
    then show ?thesis using a by (auto simp: lineFails_def)
  next
    case (Some p)
    show ?thesis
    proof (cases "p_status p \<noteq> Active \<or> js_lt (p_stock p) (ci_quantity it)")
      case True
      then show ?thesis using a Some by (auto simp: lineFails_def)
    next
      case False
      with Cons.prems a Some
      have "\<exists>x\<in>set xs. fst x = None
             \<or> (\<exists>p. fst x = Some p \<and> (p_status p \<noteq> Active \<or> js_lt (p_stock p) (ci_quantity (snd x))))"
        by auto
      from Cons.IH[OF this] obtain m x where
        "checkoutLoop xs (js_add s (js_mul (p_price p) (ci_quantity it)))
           (acc @ [\<lparr>oi_product = ci_product it, oi_quantity = ci_quantity it, oi_price = p_price p\<rparr>]) = Inl m"
        "x \<in> set xs" "lineFails x m" by blast
      then show ?thesis using a Some False
        by (intro exI[of _ m] exI[of _ x]) auto
    qed
  qed
qed

lemma checkoutLoop_populate_fails:
  assumes "\<exists>i\<in>set its. products d (ci_product i) = None
             \<or> (\<exists>p. products d (ci_product i) = Some p
                    \<and> (p_status p \<noteq> Active \<or> js_lt (p_stock p) (ci_quantity i)))"
  shows "\<exists>m i. checkoutLoop (populateItems d its) s acc = Inl m \<and> i \<in> set its
           \<and> lineFails (products d (ci_product i), i) m"
proof -
  from assms have "\<exists>x\<in>set (populateItems d its). fst x = None
             \<or> (\<exists>p. fst x = Some p \<and> (p_status p \<noteq> Active \<or> js_lt (p_stock p) (ci_quantity (snd x))))"
    by (auto simp: populateItems_def)
  from checkoutLoop_fails[OF this, of s acc] obtain m x where
    "checkoutLoop (populateItems d its) s acc = Inl m" "x \<in> set (populateItems d its)" "lineFails x m"
    by blast
  then show ?thesis by (auto simp: populateItems_def)
qed

text \<open>
  Claim C1. When the user has no cart, or the cart has no lines, or some line's product is
  missing or not active, or some line asks for more than the product's stock, checkout
  answers 400 and the database after the call is the database before it: no order is
  created, no product changes and the cart is as it was. The message is "Cart is empty"
  for a missing or empty cart; otherwise it is the message of a failing line of the cart,
  "Product ... not available" for a missing or inactive product and "Insufficient stock"
  with the product's name and its stock for a line that asks for too much.
\<close>

theorem checkout_validation_failure:
  assumes "carts d (u_id u) = None
     \<or> (\<exists>c. carts d (u_id u) = Some c \<and>
          (c_items c = []
           \<or> (\<exists>i\<in>set (c_items c).
                 products d (ci_product i) = None
               \<or> (\<exists>p. products d (ci_product i) = Some p
                      \<and> (p_status p \<noteq> Active \<or> js_lt (p_stock p) (ci_quantity i))))))"
  shows "\<exists>m. checkout newId now u d = ((400, Message m), d)
       \<and> (if carts d (u_id u) = None \<or> (\<exists>c. carts d (u_id u) = Some c \<and> c_items c = [])
          then m = Cart_is_empty
          else \<exists>c i. carts d (u_id u) = Some c \<and> i \<in> set (c_items c)
                 \<and> ((products d (ci_product i) = None \<and> m = Product_not_available None)
                   \<or> (\<exists>p. products d (ci_product i) = Some p \<and> p_status p \<noteq> Active
                          \<and> m = Product_not_available (Some p))
                   \<or> (\<exists>p. products d (ci_product i) = Some p \<and> p_status p = Active
                          \<and> js_lt (p_stock p) (ci_quantity i)
                          \<and> m = Insufficient_stock (p_name p) (p_stock p))))"
proof (cases "carts d (u_id u)")
  case None
  then show ?thesis by (simp add: checkout_def)
next
  case (Some c)
  show ?thesis
  proof (cases "c_items c = []")
    case True
    then show ?thesis using Some by (simp add: checkout_def)
  next
    case False
    with assms Some have "\<exists>i\<in>set (c_items c).
                 products d (ci_product i) = None
               \<or> (\<exists>p. products d (ci_product i) = Some p
                      \<and> (p_status p \<noteq> Active \<or> js_lt (p_stock p) (ci_quantity i)))"
      by simp
    from checkoutLoop_populate_fails[OF this, of "Num 0" "[]"] obtain m i where
      m: "checkoutLoop (populateItems d (c_items c)) (Num 0) [] = Inl m" "i \<in> set (c_items c)"
         "lineFails (products d (ci_product i), i) m"
      by blast
    have "checkout newId now u d = ((400, Message m), d)"
      using Some False m(1) by (simp add: checkout_def)
    moreover have "\<exists>c i. carts d (u_id u) = Some c \<and> i \<in> set (c_items c)
                 \<and> ((products d (ci_product i) = None \<and> m = Product_not_available None)
                   \<or> (\<exists>p. products d (ci_product i) = Some p \<and> p_status p \<noteq> Active
                          \<and> m = Product_not_available (Some p))
                   \<or> (\<exists>p. products d (ci_product i) = Some p \<and> p_status p = Active
                          \<and> js_lt (p_stock p) (ci_quantity i)
                          \<and> m = Insufficient_stock (p_name p) (p_stock p)))"
      using Some m(2,3) unfolding lineFails_def by (intro exI[of _ c] exI[of _ i]) simp
    ultimately show ?thesis using Some False by auto
  qed
qed

theorem checkout_validation_failure_witness:
  "checkout orderId1 1000 buyer dbCart6 = ((400, Message (Insufficient_stock ''Tomato'' (Num 5))), dbCart6)"
proof -
  have "\<exists>c. carts dbCart6 (u_id buyer) = Some c \<and>
          (c_items c = []
           \<or> (\<exists>i\<in>set (c_items c).
                 products dbCart6 (ci_product i) = None
               \<or> (\<exists>p. products dbCart6 (ci_product i) = Some p
                      \<and> (p_status p \<noteq> Active \<or> js_lt (p_stock p) (ci_quantity i)))))"
    by (simp add: dbCart6_def buyer_def tomato_def)
  then have "carts dbCart6 (u_id buyer) = None
     \<or> (\<exists>c. carts dbCart6 (u_id buyer) = Some c \<and>
          (c_items c = []
           \<or> (\<exists>i\<in>set (c_items c).
                 products dbCart6 (ci_product i) = None
               \<or> (\<exists>p. products dbCart6 (ci_product i) = Some p
                      \<and> (p_status p \<noteq> Active \<or> js_lt (p_stock p) (ci_quantity i))))))"
    by (rule disjI2)
  from checkout_validation_failure[OF this, of orderId1 1000]
  show ?thesis by (auto simp: dbCart6_def buyer_def tomato_def)
qed

subsection \<open>A successful checkout\<close>

lemma checkoutLoop_Inr:
  "checkoutLoop xs s acc = Inr (s', items') \<Longrightarrow>
     list_all lineAvailable xs
   \<and> s' = foldl js_add s (map lineAmount xs)
   \<and> items' = acc @ map lineOrderItem xs"
proof (induction xs arbitrary: s acc)
  case Nil
  then show ?case by simp
next
  case (Cons a xs)
  obtain pr it where a: "a = (pr, it)" by (cases a)
  from Cons.prems a obtain p where p: "pr = Some p" "p_status p = Active"
      "\<not> js_lt (p_stock p) (ci_quantity it)"
    and rest: "checkoutLoop xs (js_add s (js_mul (p_price p) (ci_quantity it)))
                 (acc @ [\<lparr>oi_product = ci_product it, oi_quantity = ci_quantity it,
                           oi_price = p_price p\<rparr>]) = Inr (s', items')"
    by (auto split: option.splits if_splits)
  from Cons.IH[OF rest] show ?case using a p
    by (simp add: lineAvailable_def lineAmount_def lineOrderItem_def)
qed

lemma checkoutLoop_available:
  "list_all lineAvailable xs \<Longrightarrow>
     checkoutLoop xs s acc = Inr (foldl js_add s (map lineAmount xs), acc @ map lineOrderItem xs)"
proof (induction xs arbitrary: s acc)
  case Nil
  then show ?case by simp
next
  case (Cons a xs)
  obtain pr it where a: "a = (pr, it)" by (cases a)
  from Cons.prems have hd: "lineAvailable a" and rest: "list_all lineAvailable xs"
    by simp_all
  from hd a obtain p where p: "pr = Some p" "p_status p = Active"
      "\<not> js_lt (p_stock p) (ci_quantity it)"
    by (auto simp: lineAvailable_def split: option.splits)
  show ?case using Cons.IH[OF rest] a p
    by (simp add: lineAmount_def lineOrderItem_def)
qed

lemma bulkOps_available:
  "list_all lineAvailable xs \<Longrightarrow> bulkOps xs = Some (map lineOp xs)"
proof (induction xs)
  case Nil
  then show ?case by simp
next
  case (Cons a xs)
  obtain pr it where a: "a = (pr, it)" by (cases a)
  from Cons.prems have hd: "lineAvailable a" and rest: "list_all lineAvailable xs"
    by simp_all
  from hd a obtain p where p: "pr = Some p"
    by (auto simp: lineAvailable_def split: option.splits)
  show ?case using Cons.IH[OF rest] a p by (simp add: lineOp_def)
qed

lemma updateOne_other: "pid \<noteq> filter_id op \<Longrightarrow> updateOne op ps pid = ps pid"
  by (simp add: updateOne_def split: option.splits)

lemma bulkWrite_other: "pid \<notin> filter_id ` set ops \<Longrightarrow> bulkWrite ops ps pid = ps pid"
  by (induction ops arbitrary: ps) (auto simp: updateOne_other)

lemma bulkWrite_distinct:
  assumes "distinct (map filter_id ops)" "op \<in> set ops" "ps (filter_id op) = Some p"
  shows "bulkWrite ops ps (filter_id op) =
           Some (p\<lparr>p_stock := js_add (p_stock p) (inc_stock op),
                   p_totalSold := js_add (p_totalSold p) (inc_totalSold op),
                   p_status := set_status op\<rparr>)"
  using assms
proof (induction ops arbitrary: ps)
  case Nil
  then show ?case by simp
next
  case (Cons a ops)
  show ?case
  proof (cases "a = op")
    case True
    with Cons.prems have "filter_id op \<notin> filter_id ` set ops" by auto
    then have "bulkWrite ops (updateOne op ps) (filter_id op) = updateOne op ps (filter_id op)"
      by (rule bulkWrite_other)
    then show ?thesis using True Cons.prems(3) by (simp add: updateOne_def)
  next
    case False
    with Cons.prems have mem: "op \<in> set ops" and d: "distinct (map filter_id ops)"
      and "filter_id a \<notin> filter_id ` set ops" by auto
    then have ne: "filter_id op \<noteq> filter_id a" by (metis imageI)
    have "updateOne a ps (filter_id op) = Some p"
      using ne Cons.prems(3) by (simp add: updateOne_other)
    from Cons.IH[of "updateOne a ps", OF d mem this] show ?thesis by simp
  qed
qed

lemma populate_distinct_ops:
  "map filter_id (map lineOp (populateItems d its)) = map ci_product its"
  by (simp add: populateItems_def lineOp_def comp_def)

lemma checkout_success_shape:
  assumes ok: "checkout newId now u d = ((201, b), d')"
  obtains c where "carts d (u_id u) = Some c" "c_items c \<noteq> []"
    "list_all lineAvailable (populateItems d (c_items c))"
    "b = Json (placedOrder newId now (u_id u) (populateItems d (c_items c)))"
    "orders d' = orders d @ [placedOrder newId now (u_id u) (populateItems d (c_items c))]"
    "products d' = bulkWrite (map lineOp (populateItems d (c_items c))) (products d)"
    "carts d' = (carts d)(u_id u \<mapsto> c\<lparr>c_items := []\<rparr>)"
    "users d' = users d"
proof -
  from ok obtain c where c: "carts d (u_id u) = Some c"
    by (cases "carts d (u_id u)") (auto simp: checkout_def)
  from ok c have ne: "c_items c \<noteq> []"
    by (auto simp: checkout_def split: if_splits)
  let ?xs = "populateItems d (c_items c)"
  from ok c ne obtain s its where loop: "checkoutLoop ?xs (Num 0) [] = Inr (s, its)"
    by (cases "checkoutLoop ?xs (Num 0) []") (auto simp: checkout_def)
  from checkoutLoop_Inr[OF loop] have av: "list_all lineAvailable ?xs"
    and s: "s = foldl js_add (Num 0) (map lineAmount ?xs)" and its: "its = map lineOrderItem ?xs"
    by simp_all
  have ops: "bulkOps ?xs = Some (map lineOp ?xs)" using av by (rule bulkOps_available)
  have xs_ne: "map lineOp ?xs \<noteq> []" using ne by (simp add: populateItems_def)
  from ok c ne loop ops xs_ne s its
  have "b = Json (placedOrder newId now (u_id u) ?xs)
      \<and> d' = d\<lparr>orders := orders d @ [placedOrder newId now (u_id u) ?xs],
              products := bulkWrite (map lineOp ?xs) (products d),
              carts := (carts d)(u_id u \<mapsto> c\<lparr>c_items := []\<rparr>)\<rparr>"
    by (auto simp: checkout_def placedOrder_def Let_def split: if_splits)
  then show thesis using that[OF c ne av] by simp
qed

text \<open>
  Over a cart whose lines name pairwise distinct products, a checkout that answers 201
  does for every line what the handler intends: the stock is lowered by the line's
  quantity, totalSold raised by it, and the status set from the resulting stock; the cart
  is emptied and the created order is stored.
\<close>

lemma checkout_distinct_lines:
  assumes ok: "checkout newId now u d = ((201, b), d')"
      and cart: "carts d (u_id u) = Some c"
      and dist: "distinct (map ci_product (c_items c))"
  shows "(\<forall>i\<in>set (c_items c). \<exists>p.
            products d (ci_product i) = Some p \<and> p_status p = Active
          \<and> \<not> js_lt (p_stock p) (ci_quantity i)
          \<and> products d' (ci_product i) =
              Some (p\<lparr>p_stock := js_sub (p_stock p) (ci_quantity i),
                      p_totalSold := js_add (p_totalSold p) (ci_quantity i),
                      p_status := (if js_le (js_sub (p_stock p) (ci_quantity i)) (Num 0)
                                   then Out_of_stock else Active)\<rparr>))
       \<and> carts d' (u_id u) = Some (c\<lparr>c_items := []\<rparr>)
       \<and> b = Json (placedOrder newId now (u_id u) (populateItems d (c_items c)))
       \<and> orders d' = orders d @ [placedOrder newId now (u_id u) (populateItems d (c_items c))]"
proof -
  from ok obtain c0 where c0: "carts d (u_id u) = Some c0"
    and av0: "list_all lineAvailable (populateItems d (c_items c0))"
    and b0: "b = Json (placedOrder newId now (u_id u) (populateItems d (c_items c0)))"
    and o0: "orders d' = orders d @ [placedOrder newId now (u_id u) (populateItems d (c_items c0))]"
    and p0: "products d' = bulkWrite (map lineOp (populateItems d (c_items c0))) (products d)"
    and k0: "carts d' = (carts d)(u_id u \<mapsto> c0\<lparr>c_items := []\<rparr>)"
    by (rule checkout_success_shape)
  from c0 cart have eq: "c0 = c" by simp
  let ?xs = "populateItems d (c_items c)"
  have lines: "\<exists>p. products d (ci_product i) = Some p \<and> p_status p = Active
                 \<and> \<not> js_lt (p_stock p) (ci_quantity i)
                 \<and> products d' (ci_product i) =
                     Some (p\<lparr>p_stock := js_sub (p_stock p) (ci_quantity i),
                             p_totalSold := js_add (p_totalSold p) (ci_quantity i),
                             p_status := (if js_le (js_sub (p_stock p) (ci_quantity i)) (Num 0)
                                          then Out_of_stock else Active)\<rparr>)"
    if i: "i \<in> set (c_items c)" for i
  proof -
    have x: "(products d (ci_product i), i) \<in> set ?xs"
      using i by (auto simp: populateItems_def)
    with av0 eq have "lineAvailable (products d (ci_product i), i)"
      by (simp add: list_all_iff)
    then obtain p where p: "products d (ci_product i) = Some p" "p_status p = Active"
        "\<not> js_lt (p_stock p) (ci_quantity i)"
      by (auto simp: lineAvailable_def split: option.splits)
    have d1: "distinct (map filter_id (map lineOp ?xs))"
      using dist by (simp only: populate_distinct_ops)
    have m: "lineOp (products d (ci_product i), i) \<in> set (map lineOp ?xs)"
      using x by simp
    have f: "filter_id (lineOp (products d (ci_product i), i)) = ci_product i"
      by (simp add: lineOp_def)
    from bulkWrite_distinct[OF d1 m, of "products d" p] p(1) f
    have "bulkWrite (map lineOp ?xs) (products d) (ci_product i) =
            Some (p\<lparr>p_stock := js_add (p_stock p) (inc_stock (lineOp (products d (ci_product i), i))),
                    p_totalSold := js_add (p_totalSold p)
                                     (inc_totalSold (lineOp (products d (ci_product i), i))),
                    p_status := set_status (lineOp (products d (ci_product i), i))\<rparr>)"
      by simp
    then show ?thesis using p p0 eq by (simp add: lineOp_def js_sub_def)
  qed
  have "carts d' (u_id u) = Some (c\<lparr>c_items := []\<rparr>)" using k0 eq by simp
  with lines b0 o0 eq show ?thesis by blast
qed

text \<open>
  A cart whose lines all pass the loop's checks, with quantities of at least 1, prices of
  at least 0 and amounts that are numbers, is checked out with 201.
\<close>

lemma checkout_succeeds:
  assumes cart: "carts d (u_id u) = Some c" and ne: "c_items c \<noteq> []"
      and lines: "\<forall>i\<in>set (c_items c). \<exists>p.
                    products d (ci_product i) = Some p \<and> p_status p = Active
                  \<and> \<not> js_lt (p_stock p) (ci_quantity i)
                  \<and> js_ge (ci_quantity i) (Num 1) \<and> js_ge (p_price p) (Num 0)"
      and amounts: "orderSchema_valid (placedOrder newId now (u_id u) (populateItems d (c_items c)))"
  shows "fst (fst (checkout newId now u d)) = 201"
proof -
  let ?xs = "populateItems d (c_items c)"
  have av: "list_all lineAvailable ?xs"
    using lines by (auto simp: list_all_iff populateItems_def lineAvailable_def)
  have loop: "checkoutLoop ?xs (Num 0) []
                = Inr (foldl js_add (Num 0) (map lineAmount ?xs), map lineOrderItem ?xs)"
    using checkoutLoop_available[OF av, of "Num 0" "[]"] by simp
  have ops: "bulkOps ?xs = Some (map lineOp ?xs)" using av by (rule bulkOps_available)
  show ?thesis
    using cart ne loop ops amounts
    by (simp add: checkout_def placedOrder_def Let_def)
qed

text \<open>
  The spec's end-to-end scenario: two tomatoes at 100 with 5 in stock give the order total
  220, leave a stock of 3 and an empty cart.
\<close>

lemma checkout_dbCart2:
  "checkout orderId1 1000 buyer dbCart2 = ((201, Json order1), dbOrdered)"
  by (simp add: checkout_def dbCart2_def dbOrdered_def order1_def buyer_def tomato_def
                populateItems_def fee_200 orderSchema_valid_def js_ge_def js_sub_def
                orderItemSchema_valid_def orderStatusEnum_def updateOne_def Let_def
                fromReal_small)

text \<open>
  A cart with two lines for one product is reachable through \<^const>\<open>addToCart\<close>: the search
  for an existing line compares the line's rendered id with the string of the request,
  so the same id spelled in upper case finds no line, passes \<^const>\<open>isValid\<close>, finds the
  product and is pushed as a second line.
\<close>

lemma castObjectId_upper:
  "castObjectId ''AAAAAAAAAAAAAAAAAAAAAAA1'' = Some tomatoId"
  by (simp add: castObjectId_def isHexDigit_def toLowerHex_def tomatoId_def)

lemma addToCart_other_spelling:
  "snd (addToCart cartItemSchema_spec (Some buyer)
          \<lparr>productId = ProductIdString ''AAAAAAAAAAAAAAAAAAAAAAA1'', quantity = Some (Num 3)\<rparr> dbCart3)
     = dbCartTwice"
  by (simp add: addToCart_def isValid_def castObjectId_upper normaliseProductId_def
        truthyString_def dbCart3_def dbCartTwice_def buyer_def tomato_def cartItemSchema_spec_def
        js_ge_def Let_def)
     (simp add: tomatoId_def)

text \<open>
  Claim C2, on the code: the buyer's cart holds two lines of three tomatoes each, and the
  product is active with a stock of five, so every line has an active product with stock
  at least its quantity. The checkout answers 201 and leaves the product with stock -1,
  totalSold 6 and status active: six are sold of five, the stock is negative against the
  schema's "Stock cannot be negative", and the status is not out_of_stock although the
  resulting stock is below 0.
\<close>

theorem checkout_duplicate_lines_oversell:
  "carts dbCartTwice (u_id buyer)
     = Some \<lparr>c_items = [\<lparr>ci_product = tomatoId, ci_quantity = Num 3\<rparr>,
                        \<lparr>ci_product = tomatoId, ci_quantity = Num 3\<rparr>]\<rparr>
   \<and> products dbCartTwice tomatoId = Some tomato
   \<and> p_status tomato = Active \<and> p_stock tomato = Num 5
   \<and> fst (fst (checkout orderId1 1000 buyer dbCartTwice)) = 201
   \<and> products (snd (checkout orderId1 1000 buyer dbCartTwice)) tomatoId
       = Some (tomato\<lparr>p_stock := Num (- 1), p_totalSold := Num 6\<rparr>)
   \<and> p_status (tomato\<lparr>p_stock := Num (- 1), p_totalSold := Num 6\<rparr>) = Active"
  by (simp add: checkout_def dbCartTwice_def buyer_def tomato_def
                populateItems_def calculateDeliveryFee_def orderSchema_valid_def js_ge_def
                js_sub_def orderItemSchema_valid_def orderStatusEnum_def updateOne_def Let_def
                fromReal_small)

section \<open>Properties of the cart summary\<close>

lemma cartSubtotal_resolved:
  "list_all (\<lambda>x. fst x \<noteq> None) xs \<Longrightarrow>
     cartSubtotal xs acc = Some (foldl js_add acc (map cartAmount xs))"
proof (induction xs arbitrary: acc)
  case Nil
  then show ?case by simp
next
  case (Cons a xs)
  obtain pr it where a: "a = (pr, it)" by (cases a)
  from Cons.prems a obtain p where p: "pr = Some p" and rest: "list_all (\<lambda>x. fst x \<noteq> None) xs"
    by auto
  show ?case using Cons.IH[OF rest] a p by (simp add: cartAmount_def)
qed

lemma cartSubtotal_unresolved:
  "\<exists>x\<in>set xs. fst x = None \<Longrightarrow> cartSubtotal xs acc = None"
proof (induction xs arbitrary: acc)
  case Nil
  then show ?case by simp
next
  case (Cons a xs)
  obtain pr it where a: "a = (pr, it)" by (cases a)
  show ?case
  proof (cases pr)
    case None
    then show ?thesis using a by simp
  next
    case (Some p)
    with Cons.prems a have "\<exists>x\<in>set xs. fst x = None" by auto
    from Cons.IH[OF this] show ?thesis using a Some by simp
  qed
qed

lemma foldl_cartAmount_populate:
  "foldl js_add acc (map cartAmount (populateItems d its)) =
     foldl (\<lambda>acc i. js_add acc
              (case products d (ci_product i) of
                 Some p \<Rightarrow> js_mul (orZero (p_price p)) (ci_quantity i)
               | None \<Rightarrow> Num 0)) acc its"
proof -
  have "map cartAmount (populateItems d its) =
          map (\<lambda>i. case products d (ci_product i) of
                      Some p \<Rightarrow> js_mul (orZero (p_price p)) (ci_quantity i)
                    | None \<Rightarrow> Num 0) its"
    by (auto simp: populateItems_def cartAmount_def split: option.splits)
  then show ?thesis by (simp add: foldl_map)
qed

text \<open>
  Claim C4, amended. For every user whose cart document exists and whose lines all resolve
  to a product, getCart answers 200 with a total that is the double sum of the subtotal
  and calculateDeliveryFee of the subtotal, where the subtotal is accumulated from 0 over
  the lines in cart order, each line adding the double product of the product's current
  price (0 when the price is \<^verbatim>\<open>NaN\<close>) and the line's quantity.
\<close>

theorem getCart_total:
  assumes cart: "carts d (u_id u) = Some c"
      and res: "\<forall>i\<in>set (c_items c). products d (ci_product i) \<noteq> None"
  shows "\<exists>r. getCart (Some u) d = (200, Json r)
           \<and> cs_subtotal r =
               foldl (\<lambda>acc i. js_add acc
                        (case products d (ci_product i) of
                           Some p \<Rightarrow> js_mul (orZero (p_price p)) (ci_quantity i)
                         | None \<Rightarrow> Num 0)) (Num 0) (c_items c)
           \<and> cs_deliveryFee r = calculateDeliveryFee (cs_subtotal r)
           \<and> cs_total r = js_add (cs_subtotal r) (calculateDeliveryFee (cs_subtotal r))"
proof -
  let ?xs = "populateItems d (c_items c)"
  have "list_all (\<lambda>x. fst x \<noteq> None) ?xs"
    using res by (auto simp: list_all_iff populateItems_def)
  from cartSubtotal_resolved[OF this, of "Num 0"]
  have "cartSubtotal ?xs (Num 0) = Some (foldl js_add (Num 0) (map cartAmount ?xs))" .
  then show ?thesis using cart
    by (simp add: getCart_def Let_def foldl_cartAmount_populate)
qed

theorem getCart_total_witness:
  "getCart (Some buyer) dbCart2 =
     (200, Json \<lparr>cs_items = [(Some tomato, \<lparr>ci_product = tomatoId, ci_quantity = Num 2\<rparr>)],
                 cs_subtotal = Num 200, cs_deliveryFee = Num 20, cs_total = Num 220\<rparr>)"
proof -
  have cart: "carts dbCart2 (u_id buyer)
                = Some \<lparr>c_items = [\<lparr>ci_product = tomatoId, ci_quantity = Num 2\<rparr>]\<rparr>"
    by (simp add: dbCart2_def buyer_def)
  have res: "\<forall>i\<in>set (c_items \<lparr>c_items = [\<lparr>ci_product = tomatoId, ci_quantity = Num 2\<rparr>]\<rparr>).
               products dbCart2 (ci_product i) \<noteq> None"
    by (simp add: dbCart2_def)
  from getCart_total[OF cart res]
  show ?thesis
    by (simp add: getCart_def dbCart2_def buyer_def tomato_def populateItems_def
                  orZero_def fee_200 fromReal_small)
qed

text \<open>
  Claim C4 as stated includes the user without a cart document. There getCart answers the
  fixed summary with subtotal 0 and total 0, while calculateDeliveryFee of 0 is 10.
\<close>

theorem getCart_no_cart_counterexample:
  "\<not> (\<forall>u d r. getCart (Some u) d = (200, Json r) \<longrightarrow>
         cs_total r = js_add (cs_subtotal r) (calculateDeliveryFee (cs_subtotal r)))"
proof
  assume all: "\<forall>u d r. getCart (Some u) d = (200, Json r) \<longrightarrow>
         cs_total r = js_add (cs_subtotal r) (calculateDeliveryFee (cs_subtotal r))"
  have "getCart (Some buyer) dbNoCart =
          (200, Json \<lparr>cs_items = [], cs_subtotal = Num 0, cs_deliveryFee = Num 0,
                      cs_total = Num 0\<rparr>)"
    by (simp add: getCart_def dbNoCart_def buyer_def)
  with all have "Num 0 = js_add (Num 0) (calculateDeliveryFee (Num 0))" by fastforce
  then show False by (simp add: fee_0 fromReal_small)
qed

text \<open>
  A line whose product no longer exists makes the summary fail: the handler answers 500.
\<close>

lemma getCart_unresolved:
  assumes "carts d (u_id u) = Some c" and "\<exists>i\<in>set (c_items c). products d (ci_product i) = None"
  shows "getCart (Some u) d = (500, Message Server_error)"
proof -
  from assms(2) have "\<exists>x\<in>set (populateItems d (c_items c)). fst x = None"
    by (auto simp: populateItems_def)
  from cartSubtotal_unresolved[OF this, of "Num 0"] assms(1) show ?thesis
    by (simp add: getCart_def)
qed

text \<open>
  The sums and products of the summary are those of doubles. Three items at 118.6 and one
  at 144.2 add up to the double written 499.99999999999994, which is below the threshold
  of 500: the fee is 50 and the total is the double 550.
\<close>

lemma cartSubtotal_rounds:
  "cartSubtotal
     [(Some (tomato\<lparr>p_price := fromReal 118.6\<rparr>), \<lparr>ci_product = tomatoId, ci_quantity = Num 3\<rparr>),
      (Some (tomato\<lparr>p_price := fromReal 144.2\<rparr>), \<lparr>ci_product = tomatoId, ci_quantity = Num 1\<rparr>)]
     (Num 0)
   = Some (fromReal 499.99999999999994)"
  by code_simp

lemma total_rounds:
  "js_add (fromReal 499.99999999999994) (calculateDeliveryFee (fromReal 499.99999999999994))
     = Num 550"
  by code_simp

text \<open>
  Claim C9. For every user with no cart document, getCart answers 200 with exactly the
  summary of no items, subtotal 0, delivery fee 0 and total 0.
\<close>

theorem getCart_no_cart:
  assumes "carts d (u_id u) = None"
  shows "getCart (Some u) d =
           (200, Json \<lparr>cs_items = [], cs_subtotal = Num 0, cs_deliveryFee = Num 0,
                       cs_total = Num 0\<rparr>)"
  using assms by (simp add: getCart_def)

theorem getCart_no_cart_witness:
  "carts dbNoCart (u_id buyer) = None
   \<and> getCart (Some buyer) dbNoCart =
       (200, Json \<lparr>cs_items = [], cs_subtotal = Num 0, cs_deliveryFee = Num 0,
                   cs_total = Num 0\<rparr>)"
proof -
  have h: "carts dbNoCart (u_id buyer) = None" by (simp add: dbNoCart_def)
  from h getCart_no_cart[OF h] show ?thesis by simp
qed

section \<open>Properties of the order queries\<close>

text \<open>
  Claim C7. For every farmer and every order, the order is among the orders that
  getFarmerOrders answers if and only if it is a stored order with at least one line whose
  product exists and has that farmer as its farmer reference.
\<close>

theorem getFarmerOrders_visibility:
  "\<exists>res. getFarmerOrders f d = (200, Json res)
     \<and> (\<forall>ord. ord \<in> po_order ` set res \<longleftrightarrow>
            ord \<in> set (orders d)
          \<and> (\<exists>i\<in>set (o_items ord). \<exists>p. products d (oi_product i) = Some p
                                      \<and> p_farmer p = u_id f))"
proof -
  define mk where "mk = (\<lambda>ord. \<lparr>po_order = ord,
                                 po_products = map (populateMatch d (u_id f)) (o_items ord),
                                 po_user = users d (o_user ord)\<rparr>)"
  define res where "res = filter (\<lambda>po. list_ex (belongsTo (u_id f)) (po_products po))
                            (sort_key (\<lambda>po. - o_createdAt (po_order po))
                               (map mk (filter (\<lambda>ord. o_items ord \<noteq> []) (orders d))))"
  have ex: "list_ex (belongsTo (u_id f)) (map (populateMatch d (u_id f)) its)
            \<longleftrightarrow> (\<exists>i\<in>set its. \<exists>p. products d (oi_product i) = Some p \<and> p_farmer p = u_id f)"
    for its
    by (auto simp: list_ex_iff belongsTo_def populateMatch_def split: option.splits if_splits)
  have r: "getFarmerOrders f d = (200, Json res)"
    by (simp add: getFarmerOrders_def Let_def res_def mk_def)
  have "set res = mk ` {ord \<in> set (orders d). o_items ord \<noteq> []
                           \<and> list_ex (belongsTo (u_id f)) (po_products (mk ord))}"
    by (auto simp: res_def)
  then have "po_order ` set res = {ord \<in> set (orders d). o_items ord \<noteq> []
                           \<and> list_ex (belongsTo (u_id f)) (po_products (mk ord))}"
    by (simp add: image_image mk_def)
  also have "\<dots> = {ord \<in> set (orders d).
                     \<exists>i\<in>set (o_items ord). \<exists>p. products d (oi_product i) = Some p
                                             \<and> p_farmer p = u_id f}"
    by (auto simp: mk_def ex)
  finally show ?thesis using r by auto
qed

theorem getFarmerOrders_visibility_witness:
  "\<exists>res. getFarmerOrders farmer dbOrdered = (200, Json res) \<and> order1 \<in> po_order ` set res"
proof -
  have "order1 \<in> set (orders dbOrdered)
          \<and> (\<exists>i\<in>set (o_items order1). \<exists>p. products dbOrdered (oi_product i) = Some p
                                      \<and> p_farmer p = u_id farmer)"
    by (simp add: dbOrdered_def order1_def tomato_def farmer_def)
  with getFarmerOrders_visibility[of farmer dbOrdered] show ?thesis by blast
qed

subsection \<open>Reading one order\<close>

text \<open>
  The rendering of a populated user document is never the rendering of an id, so the
  ownership comparison of \<^const>\<open>getOrderById\<close> never succeeds: a requester who is not an
  administrator is refused, whoever owns the order, and an administrator is let through.
\<close>

lemma documentToString_not_hex:
  "list_all isHexDigit s \<Longrightarrow> documentToString usr \<noteq> s"
proof
  assume h: "list_all isHexDigit s" and e: "documentToString usr = s"
  from e have "s = CHR ''{'' # tl s" by (auto simp: documentToString_def)
  with h have "list_all isHexDigit (CHR ''{'' # tl s)" by simp
  then have "isHexDigit CHR ''{''" by simp
  then show False by (simp add: isHexDigit_def)
qed

lemma getOrderById_not_admin:
  assumes "castObjectId idParam = Some oid"
      and "find (\<lambda>ord. o_id ord = oid) (orders d) = Some ord"
      and "users d (o_user ord) = Some orderUser"
      and "list_all isHexDigit (u_id reqUser)"
      and "u_role reqUser \<noteq> ''admin''"
  shows "getOrderById reqUser idParam d = (403, Message Not_authorized_to_view_this_order)"
  using assms documentToString_not_hex[of "u_id reqUser" orderUser]
  by (simp add: getOrderById_def populateOrder_def)

lemma getOrderById_admin:
  assumes "castObjectId idParam = Some oid"
      and "find (\<lambda>ord. o_id ord = oid) (orders d) = Some ord"
      and "users d (o_user ord) = Some orderUser"
      and "u_role reqUser = ''admin''"
  shows "getOrderById reqUser idParam d = (200, Json (populateOrder d ord))"
  using assms by (simp add: getOrderById_def populateOrder_def)

lemma castObjectId_orderId1: "castObjectId orderId1 = Some orderId1"
  by (simp add: castObjectId_def isHexDigit_def toLowerHex_def orderId1_def)

text \<open>
  Claim C6, on the code: the owner of an order who is not an administrator is answered 403
  for the own order, where the claim (and the handler's comment "Allow if owner or admin")
  has 200. Here the buyer asks for the order that the buyer placed.
\<close>

theorem getOrderById_owner_forbidden:
  "find (\<lambda>ord. o_id ord = orderId1) (orders dbOrdered) = Some order1
   \<and> o_user order1 = u_id buyer
   \<and> u_role buyer = ''buyer''
   \<and> getOrderById buyer orderId1 dbOrdered = (403, Message Not_authorized_to_view_this_order)"
proof -
  have f: "find (\<lambda>ord. o_id ord = orderId1) (orders dbOrdered) = Some order1"
    by (simp add: dbOrdered_def order1_def)
  have u: "users dbOrdered (o_user order1) = Some buyer"
    by (simp add: dbOrdered_def order1_def exampleUsers_def buyerId_def farmerId_def
                  otherBuyerId_def adminId_def)
  have h: "list_all isHexDigit (u_id buyer)"
    by (simp add: buyer_def buyerId_def isHexDigit_def)
  have r: "u_role buyer \<noteq> ''admin''" by (simp add: buyer_def)
  from getOrderById_not_admin[OF castObjectId_orderId1 f u h r] f
  show ?thesis by (simp add: order1_def buyer_def)
qed

lemma getOrderById_admin_example:
  "getOrderById admin orderId1 dbOrdered = (200, Json (populateOrder dbOrdered order1))"
proof -
  have f: "find (\<lambda>ord. o_id ord = orderId1) (orders dbOrdered) = Some order1"
    by (simp add: dbOrdered_def order1_def)
  have u: "users dbOrdered (o_user order1) = Some buyer"
    by (simp add: dbOrdered_def order1_def exampleUsers_def buyerId_def farmerId_def
                  otherBuyerId_def adminId_def)
  have r: "u_role admin = ''admin''" by (simp add: admin_def)
  from getOrderById_admin[OF castObjectId_orderId1 f u r] show ?thesis .
qed

section \<open>Properties of the order administration\<close>

text \<open>
  A status outside the controller's list is answered 400 before anything is read. Of the
  four statuses of the list, \<^verbatim>\<open>delivered\<close> and \<^verbatim>\<open>cancelled\<close> are in the enum of the order
  schema and are stored on an order that is otherwise valid; \<^verbatim>\<open>processing\<close> and
  \<^verbatim>\<open>in_transit\<close> are not, so saving fails validation and the handler answers 500 with the
  order as it was.
\<close>

lemma updateOrderStatus_invalid:
  "\<not> includes_js allowedStatuses status \<Longrightarrow>
     updateOrderStatus now status idParam d = ((400, Message Invalid_status), d)"
  by (simp add: updateOrderStatus_def)

lemma updateOrderStatus_in_enum:
  assumes "s = ''delivered'' \<or> s = ''cancelled''"
      and "castObjectId idParam = Some oid"
      and "find (\<lambda>ord. o_id ord = oid) (orders d) = Some ord"
      and "orderSchema_valid ord"
  shows "updateOrderStatus now (JStr s) idParam d =
           ((200, Json (ord\<lparr>o_status := s, o_updatedAt := now\<rparr>)),
            d\<lparr>orders := map (\<lambda>x. if o_id x = oid then ord\<lparr>o_status := s, o_updatedAt := now\<rparr> else x)
                            (orders d)\<rparr>)"
  using assms
  by (auto simp: updateOrderStatus_def includes_js_def allowedStatuses_def orderStatusEnum_def
        orderSchema_valid_def Let_def)

lemma updateOrderStatus_not_in_enum:
  assumes "s = ''processing'' \<or> s = ''in_transit''"
      and "castObjectId idParam = Some oid"
      and "find (\<lambda>ord. o_id ord = oid) (orders d) = Some ord"
  shows "updateOrderStatus now (JStr s) idParam d = ((500, Message Failed_to_update_order), d)"
  using assms
  by (auto simp: updateOrderStatus_def includes_js_def allowedStatuses_def orderStatusEnum_def
        orderSchema_valid_def Let_def)

text \<open>
  Claim C8, on the code: for the existing order and the statuses processing and
  in_transit, both in the controller's list of allowed statuses, updateOrderStatus answers
  500 and stores nothing, where the claim has 200 with the status persisted.
\<close>

theorem updateOrderStatus_processing_rejected:
  "find (\<lambda>ord. o_id ord = orderId1) (orders dbOrdered) = Some order1
   \<and> updateOrderStatus 2000 (JStr ''processing'') orderId1 dbOrdered
       = ((500, Message Failed_to_update_order), dbOrdered)
   \<and> updateOrderStatus 2000 (JStr ''in_transit'') orderId1 dbOrdered
       = ((500, Message Failed_to_update_order), dbOrdered)"
proof -
  have f: "find (\<lambda>ord. o_id ord = orderId1) (orders dbOrdered) = Some order1"
    by (simp add: dbOrdered_def order1_def)
  from updateOrderStatus_not_in_enum[OF _ castObjectId_orderId1 f, of "''processing''" 2000]
       updateOrderStatus_not_in_enum[OF _ castObjectId_orderId1 f, of "''in_transit''" 2000] f
  show ?thesis by simp
qed

section \<open>Properties of the product mutations\<close>

text \<open>
  The \<^verbatim>\<open>save\<close> hook sets totalValue to price times stock, so a mutation that saves the
  document (such as counting a view of a valid product) establishes the equation. The bulk
  write of checkout and the farmer's \<^verbatim>\<open>findByIdAndUpdate\<close> do not run the hook: they leave
  totalValue as it was while they change the stock.
\<close>

lemma preSave_totalValue:
  "p_totalValue (preSave p) = js_mul (p_price (preSave p)) (p_stock (preSave p))"
  by (simp add: preSave_def Let_def)

lemma getProduct_totalValue:
  assumes "products d pid = Some p" and "productSchema_valid p"
  shows "\<exists>p'. products (snd (getProduct pid d)) pid = Some p'
           \<and> p_totalValue p' = js_mul (p_price p') (p_stock p')"
  using assms by (simp add: getProduct_def Let_def preSave_totalValue productSchema_valid_def)

text \<open>
  A product whose stored stock is negative fails validation: counting a view answers 500
  and stores nothing.
\<close>

lemma getProduct_invalid:
  assumes "products d pid = Some p" and "\<not> productSchema_valid p"
  shows "getProduct pid d = ((500, Message Failed_to_fetch_product), d)"
  using assms by (simp add: getProduct_def Let_def productSchema_valid_def)

lemma updateOne_totalValue:
  "updateOne op ps pid = Some p' \<Longrightarrow>
     \<exists>p. ps pid = Some p \<and> p_totalValue p' = p_totalValue p \<and> p_price p' = p_price p"
  by (auto simp: updateOne_def split: option.splits if_splits)

lemma bulkWrite_totalValue:
  "bulkWrite ops ps pid = Some p' \<Longrightarrow>
     \<exists>p. ps pid = Some p \<and> p_totalValue p' = p_totalValue p \<and> p_price p' = p_price p"
proof (induction ops arbitrary: ps)
  case Nil
  then show ?case by simp
next
  case (Cons a ops)
  from Cons.prems have "bulkWrite ops (updateOne a ps) pid = Some p'" by simp
  from Cons.IH[OF this] obtain p1 where p1: "updateOne a ps pid = Some p1"
      "p_totalValue p' = p_totalValue p1" "p_price p' = p_price p1" by blast
  from updateOne_totalValue[OF p1(1)] p1(2,3) show ?case by auto
qed

text \<open>
  Claim C5, on the code: the checkout of two tomatoes (price 100, stock 5, totalValue 500)
  leaves the product with stock 3 and totalValue still 500, where price times stock is 300.
\<close>

theorem checkout_leaves_totalValue:
  "products dbCart2 tomatoId = Some tomato
   \<and> p_totalValue tomato = js_mul (p_price tomato) (p_stock tomato)
   \<and> products (snd (checkout orderId1 1000 buyer dbCart2)) tomatoId
       = Some (tomato\<lparr>p_stock := Num 3, p_totalSold := Num 2\<rparr>)
   \<and> p_totalValue (tomato\<lparr>p_stock := Num 3, p_totalSold := Num 2\<rparr>) = Num 500
   \<and> js_mul (p_price (tomato\<lparr>p_stock := Num 3, p_totalSold := Num 2\<rparr>))
             (p_stock (tomato\<lparr>p_stock := Num 3, p_totalSold := Num 2\<rparr>)) = Num 300"
proof -
  have "products dbCart2 tomatoId = Some tomato" by (simp add: dbCart2_def)
  moreover have "products (snd (checkout orderId1 1000 buyer dbCart2)) tomatoId
       = Some (tomato\<lparr>p_stock := Num 3, p_totalSold := Num 2\<rparr>)"
    by (simp add: checkout_dbCart2) (simp add: dbOrdered_def)
  ultimately show ?thesis by (simp add: tomato_def fromReal_small)
qed

lemma updateProduct_leaves_totalValue:
  "products (snd (updateProduct farmer tomatoId
                    \<lparr>up_name = None, up_price = None, up_stock = Some (Num 8)\<rparr> dbCart2)) tomatoId
     = Some (tomato\<lparr>p_stock := Num 8\<rparr>)
   \<and> p_totalValue (tomato\<lparr>p_stock := Num 8\<rparr>) = Num 500
   \<and> js_mul (p_price (tomato\<lparr>p_stock := Num 8\<rparr>)) (p_stock (tomato\<lparr>p_stock := Num 8\<rparr>)) = Num 800"
  by (simp add: updateProduct_def dbCart2_def tomato_def farmer_def js_ge_def js_gt_def Let_def
                fromReal_small)

section \<open>Properties of adding to the cart\<close>

lemma set_incrementFirst:
  "find (\<lambda>i. ci_product i = pid) its = Some e \<Longrightarrow>
     e\<lparr>ci_quantity := js_add (ci_quantity e) q\<rparr> \<in> set (incrementFirst pid q its)"
  by (induction its) (auto split: if_splits)

text \<open>
  Claim C10, amended. addToCart itself applies no lower bound and no integrality check to
  the quantity: for every authenticated request naming an existing active product and every
  numeric quantity q (1 when the request has none), the line's new quantity is the double
  sum of its previous value and q, or q for a line to be appended. When the cart schema's
  validation accepts every line of the resulting cart, the call answers 200 and the stored
  cart holds the line; when it rejects a line, the call answers 500 and the stored lines
  are as before (a missing cart has been created empty).
\<close>

theorem addToCart_quantity:
  assumes pid: "normaliseProductId (productId body) = Some pid"
      and oid: "castObjectId pid = Some oid"
      and prod: "products d oid = Some p" "p_status p = Active"
      and q: "q = (case quantity body of None \<Rightarrow> Num 1 | Some v \<Rightarrow> v)"
      and old: "old = (case carts d (u_id u) of None \<Rightarrow> \<lparr>c_items = []\<rparr> | Some c \<Rightarrow> c)"
      and line: "line = (case find (\<lambda>i. ci_product i = pid) (c_items old) of
                           Some e \<Rightarrow> e\<lparr>ci_quantity := js_add (ci_quantity e) q\<rparr>
                         | None \<Rightarrow> \<lparr>ci_product = oid, ci_quantity = q\<rparr>)"
      and new: "items' = (case find (\<lambda>i. ci_product i = pid) (c_items old) of
                            Some e \<Rightarrow> incrementFirst pid q (c_items old)
                          | None \<Rightarrow> c_items old @ [line])"
  shows "line \<in> set items'
       \<and> (if list_all valid items'
          then \<exists>cart'. addToCart valid (Some u) body d
                          = ((200, Json cart'), d\<lparr>carts := (carts d)(u_id u \<mapsto> cart')\<rparr>)
                      \<and> c_items cart' = items'
          else addToCart valid (Some u) body d
                 = ((500, Message Server_error), d\<lparr>carts := (carts d)(u_id u \<mapsto> old)\<rparr>))"
proof (cases "find (\<lambda>i. ci_product i = pid) (c_items old)")
  case None
  then show ?thesis
    using pid oid prod q old line new
    by (simp add: addToCart_def isValid_def Let_def)
next
  case (Some e)
  then show ?thesis
    using pid oid prod q old line new set_incrementFirst[OF Some, of q]
    by (simp add: addToCart_def isValid_def Let_def)
qed

lemma castObjectId_tomatoId: "castObjectId tomatoId = Some tomatoId"
  by (simp add: castObjectId_def isHexDigit_def toLowerHex_def tomatoId_def)

theorem addToCart_quantity_witness:
  "addToCart cartItemSchema_spec (Some buyer)
     \<lparr>productId = ProductIdString tomatoId, quantity = Some (Num 3)\<rparr> dbCart2
   = ((200, Json \<lparr>c_items = [\<lparr>ci_product = tomatoId, ci_quantity = Num 5\<rparr>]\<rparr>),
      dbCart2\<lparr>carts := (carts dbCart2)
                 (buyerId \<mapsto> \<lparr>c_items = [\<lparr>ci_product = tomatoId, ci_quantity = Num 5\<rparr>]\<rparr>)\<rparr>)"
proof -
  have pid: "normaliseProductId
               (productId \<lparr>productId = ProductIdString tomatoId, quantity = Some (Num 3)\<rparr>)
               = Some tomatoId"
    by (simp add: normaliseProductId_def truthyString_def tomatoId_def)
  have prod: "products dbCart2 tomatoId = Some tomato" "p_status tomato = Active"
    by (simp_all add: dbCart2_def tomato_def)
  have q: "Num 3 = (case quantity \<lparr>productId = ProductIdString tomatoId, quantity = Some (Num 3)\<rparr>
                      of None \<Rightarrow> Num 1 | Some v \<Rightarrow> v)"
    by simp
  have old: "\<lparr>c_items = [\<lparr>ci_product = tomatoId, ci_quantity = Num 2\<rparr>]\<rparr>
               = (case carts dbCart2 (u_id buyer) of None \<Rightarrow> \<lparr>c_items = []\<rparr> | Some c \<Rightarrow> c)"
    by (simp add: dbCart2_def buyer_def)
  have line: "\<lparr>ci_product = tomatoId, ci_quantity = Num 5\<rparr>
                = (case find (\<lambda>i. ci_product i = tomatoId)
                          (c_items \<lparr>c_items = [\<lparr>ci_product = tomatoId, ci_quantity = Num 2\<rparr>]\<rparr>) of
                     Some e \<Rightarrow> e\<lparr>ci_quantity := js_add (ci_quantity e) (Num 3)\<rparr>
                   | None \<Rightarrow> \<lparr>ci_product = tomatoId, ci_quantity = Num 3\<rparr>)"
    by (simp add: fromReal_small)
  have new: "[\<lparr>ci_product = tomatoId, ci_quantity = Num 5\<rparr>]
               = (case find (\<lambda>i. ci_product i = tomatoId)
                          (c_items \<lparr>c_items = [\<lparr>ci_product = tomatoId, ci_quantity = Num 2\<rparr>]\<rparr>) of
                    Some e \<Rightarrow> incrementFirst tomatoId (Num 3)
                                (c_items \<lparr>c_items = [\<lparr>ci_product = tomatoId, ci_quantity = Num 2\<rparr>]\<rparr>)
                  | None \<Rightarrow> c_items \<lparr>c_items = [\<lparr>ci_product = tomatoId, ci_quantity = Num 2\<rparr>]\<rparr>
                             @ [\<lparr>ci_product = tomatoId, ci_quantity = Num 5\<rparr>])"
    by (simp add: fromReal_small)
  from addToCart_quantity[OF pid castObjectId_tomatoId prod q old line new, of cartItemSchema_spec]
  obtain cart' where
    r: "addToCart cartItemSchema_spec (Some buyer)
          \<lparr>productId = ProductIdString tomatoId, quantity = Some (Num 3)\<rparr> dbCart2
        = ((200, Json cart'), dbCart2\<lparr>carts := (carts dbCart2)(u_id buyer \<mapsto> cart')\<rparr>)"
    and items: "c_items cart' = [\<lparr>ci_product = tomatoId, ci_quantity = Num 5\<rparr>]"
    by (auto simp: cartItemSchema_spec_def js_ge_def)
  from items have "cart' = \<lparr>c_items = [\<lparr>ci_product = tomatoId, ci_quantity = Num 5\<rparr>]\<rparr>"
    by (cases cart') simp
  with r show ?thesis by (simp add: buyer_def)
qed

text \<open>
  Claim C10 as stated has every such call answer 200. With the line validation of the
  spec's data model (quantity at least 1), adding the quantity 0 of an active product to a
  user without a cart is answered 500, and no cart line is stored.
\<close>

lemma addToCart_zero:
  "addToCart cartItemSchema_spec (Some buyer)
     \<lparr>productId = ProductIdString tomatoId, quantity = Some (Num 0)\<rparr> dbNoCart
   = ((500, Message Server_error), dbNoCart\<lparr>carts := [buyerId \<mapsto> \<lparr>c_items = []\<rparr>]\<rparr>)"
  by (simp add: addToCart_def isValid_def castObjectId_tomatoId normaliseProductId_def
        truthyString_def dbNoCart_def buyer_def tomato_def cartItemSchema_spec_def js_ge_def Let_def)
     (simp add: tomatoId_def)

theorem addToCart_zero_counterexample:
  "\<not> (\<forall>u body d pid oid p q.
         normaliseProductId (productId body) = Some pid \<and> castObjectId pid = Some oid
         \<and> products d oid = Some p \<and> p_status p = Active \<and> quantity body = Some q
         \<longrightarrow> fst (fst (addToCart cartItemSchema_spec (Some u) body d)) = 200)"
proof
  assume all: "\<forall>u body d pid oid p q.
         normaliseProductId (productId body) = Some pid \<and> castObjectId pid = Some oid
         \<and> products d oid = Some p \<and> p_status p = Active \<and> quantity body = Some q
         \<longrightarrow> fst (fst (addToCart cartItemSchema_spec (Some u) body d)) = 200"
  let ?body = "\<lparr>productId = ProductIdString tomatoId, quantity = Some (Num 0)\<rparr>"
  have "normaliseProductId (productId ?body) = Some tomatoId"
    by (simp add: normaliseProductId_def truthyString_def tomatoId_def)
  moreover have "products dbNoCart tomatoId = Some tomato" "p_status tomato = Active"
    by (simp_all add: dbNoCart_def tomato_def)
  moreover have "quantity ?body = Some (Num 0)" by simp
  ultimately have "fst (fst (addToCart cartItemSchema_spec (Some buyer) ?body dbNoCart)) = 200"
    using all castObjectId_tomatoId by blast
  then show False by (simp add: addToCart_zero)
qed

text \<open>
  Without a validation of the lines (a schema that accepts every quantity) the controller
  stores what the arithmetic gives, here a line with quantity -1.
\<close>

lemma addToCart_unvalidated:
  "addToCart (\<lambda>_. True) (Some buyer)
     \<lparr>productId = ProductIdString tomatoId, quantity = Some (Num (- 3))\<rparr> dbCart2
   = ((200, Json \<lparr>c_items = [\<lparr>ci_product = tomatoId, ci_quantity = Num (- 1)\<rparr>]\<rparr>),
      dbCart2\<lparr>carts := [buyerId \<mapsto> \<lparr>c_items = [\<lparr>ci_product = tomatoId, ci_quantity = Num (- 1)\<rparr>]\<rparr>]\<rparr>)"
  by (simp add: addToCart_def isValid_def castObjectId_tomatoId normaliseProductId_def
        truthyString_def dbCart2_def buyer_def tomato_def Let_def fromReal_small)
     (simp add: tomatoId_def)

text \<open>
  The sum is the sum of doubles: a stored quantity of 1.2 and a request for -0.2 give the
  double 1, which the spec's validation accepts. And every line is validated: a stored
  line of quantity 0 makes the push of another line fail.
\<close>

lemma quantity_rounds: "js_add (fromReal 1.2) (fromReal (- 0.2)) = Num 1"
  by code_simp

lemma incrementFirst_rounds:
  "list_all cartItemSchema_spec
     (incrementFirst tomatoId (fromReal (- 0.2))
        [\<lparr>ci_product = tomatoId, ci_quantity = fromReal 1.2\<rparr>])"
  using quantity_rounds by (simp add: cartItemSchema_spec_def js_ge_def)

lemma stored_line_validated:
  "\<not> list_all cartItemSchema_spec
        ([\<lparr>ci_product = tomatoId, ci_quantity = Num 0\<rparr>]
         @ [\<lparr>ci_product = orderId1, ci_quantity = Num 1\<rparr>])"
  by (simp add: cartItemSchema_spec_def js_ge_def)

end
